theory Spec2Isabelle
  imports Complex_Main "HOL-Library.Word"
begin

section \<open>Data model of TenisApp.jsx\<close>

text \<open>
  The state kept by \<^verbatim>\<open>useState(() => bootstrapState())\<close> and rewritten by every
  \<^verbatim>\<open>commit\<close> is one JSON object. Each entity is a record; the string constants
  \<^verbatim>\<open>RES_STATUS\<close> and \<^verbatim>\<open>PAY_STATUS\<close> are enumerations. Strings are lists of code units
  below 256, except the password, kept as UTF-16 code units; identifiers, dates and
  slot labels stay strings, compared with \<^verbatim>\<open>===\<close>.
  Prices are the integers the admin form produces
  (\<^verbatim>\<open>clamp(parseInt(...) || 0, 0, 1000000)\<close>).
\<close>

datatype res_status = PENDING_PAYMENT | CONFIRMED | CANCELLED | NO_SHOW

datatype pay_status = PENDING | APPROVED | REJECTED | REFUNDED_PARTIAL

datatype user_role = RoleAdmin | RoleUser

datatype user_type = Socio | NoSocio

datatype pay_method = MercadoPago | Efectivo

record user =
  u_id :: string
  u_role :: user_role
  u_email :: string
  u_phone :: string
  u_dni :: string
  u_userType :: user_type
  u_createdAt :: string
  u_passwordHash :: "16 word list"
  u_isEmailValidated :: bool
  u_isPhoneValidated :: bool

record court =
  c_id :: string
  c_name :: string
  c_isActive :: bool

record reservation =
  r_id :: string
  r_userId :: string
  r_createdBy :: string
  r_dateISO :: string
  r_time :: string
  r_courtId :: string
  r_status :: res_status
  r_price :: int
  r_createdAt :: string
  r_updatedAt :: string
  r_cancelReason :: "string option"

record mp_meta =
  mp_status :: string
  mp_operationId :: string
  mp_at :: string

record cash_meta =
  cash_by :: string
  cash_at :: string

record refund_meta =
  rf_percent :: int
  rf_amount :: int
  rf_by :: string
  rf_at :: string

record pay_meta =
  m_mp :: "mp_meta option"
  m_cash :: "cash_meta option"
  m_refund :: "refund_meta option"

record payment =
  p_id :: string
  p_reservationId :: string
  p_method :: "pay_method option"
  p_status :: pay_status
  p_amount :: int
  p_createdAt :: string
  p_updatedAt :: string
  p_meta :: pay_meta

record block =
  b_id :: string
  b_courtId :: string
  b_dateISO :: string
  b_time :: string
  b_reason :: string
  b_createdBy :: string
  b_createdAt :: string

record config =
  authMode :: string
  requireEmailValidation :: bool
  requirePhoneValidation :: bool
  priceSocio :: int
  priceNoSocio :: int
  currency :: string

text \<open>The \<^verbatim>\<open>patch\<close> object of \<^verbatim>\<open>setConfig\<close>: each key is present or absent.\<close>

record config_patch =
  patch_authMode :: "string option"
  patch_requireEmailValidation :: "bool option"
  patch_requirePhoneValidation :: "bool option"
  patch_priceSocio :: "int option"
  patch_priceNoSocio :: "int option"
  patch_currency :: "string option"

text \<open>
  The free-text \<^verbatim>\<open>detail\<close> of an audit entry is a template string; the model keeps
  the template's name and the values substituted into it.
\<close>

datatype audit_detail =
    DetailSeed
  | DetailConfig config_patch
  | DetailRegister user_type
  | DetailAccount "bool option" "bool option"
  | DetailCourt string bool
  | DetailBlock string string string string
  | DetailUnblock string
  | DetailCreada string string string string
  | DetailMPAprobado string
  | DetailEfectivoAprobado string
  | DetailCancelada string string
  | DetailNoShow string
  | DetailReservaManual string

record audit_entry =
  a_id :: string
  a_at :: string
  a_by :: string
  a_action :: string
  a_detail :: audit_detail

datatype notif_event =
    EvValidacionDeCuenta | EvReservaCreada | EvPagoConfirmado
  | EvCancelacion | EvNoPresentacion | EvReintegros

datatype notif_payload =
    PayloadCuentaCreada
  | PayloadValidacion "bool option" "bool option"
  | PayloadReserva string string string string int
  | PayloadPago string "string option"
  | PayloadCancelacion string "string option"
  | PayloadRefund string int

record notification =
  n_id :: string
  n_at :: string
  n_channel :: string
  n_to :: string
  n_event :: notif_event
  n_payload :: notif_payload

record db =
  st_config :: config
  st_courts :: "court list"
  st_users :: "user list"
  st_sessions :: "string option"
  st_reservations :: "reservation list"
  st_payments :: "payment list"
  st_blocks :: "block list"
  st_audit :: "audit_entry list"
  st_notifications :: "notification list"

text \<open>
  What the JavaScript runtime answers during one API call: the clock
  (\<^verbatim>\<open>nowISOTime()\<close>), the calendar day number of \<^verbatim>\<open>startOfDay(new Date())\<close>, the
  calendar day number of \<^verbatim>\<open>startOfDay(new Date(dateISO + "T00:00:00"))\<close> (\<open>None\<close> for
  an Invalid Date), and the suffix \<^verbatim>\<open>uid\<close> draws from \<^verbatim>\<open>Math.random()\<close> and
  \<^verbatim>\<open>Date.now()\<close> at its \<open>k\<close>-th call site of the API call.
\<close>

record env =
  now :: string
  today :: int
  dayOf :: "string \<Rightarrow> int option"
  rnd :: "nat \<Rightarrow> string"

text \<open>
  The errors thrown by the API, named as in the specification. The source throws
  \<^verbatim>\<open>new Error(message)\<close>; the three \<open>InvalidInput\<close> errors are the DNI, email and phone
  messages of \<^verbatim>\<open>register\<close>, the two \<open>AccountNotValidated\<close> errors the email and WhatsApp
  messages of \<^verbatim>\<open>createReservation\<close>.
\<close>

datatype error =
    InvalidInputDni | InvalidInputEmail | InvalidInputPhone
  | WeakPassword | DuplicateUser
  | InvalidUser | AccountNotValidatedEmail | AccountNotValidatedPhone
  | PastDate | TooFarAhead | ResourceUnavailable
  | SlotBlocked | SlotTaken | UserDoubleBooked

section \<open>Utilities\<close>

definition uid :: "env \<Rightarrow> string \<Rightarrow> nat \<Rightarrow> string" where
  "uid e prefix k = prefix @ ''_'' @ rnd e k"

text \<open>\<^verbatim>\<open>String.prototype.trim\<close> on code units below 256.\<close>

definition is_space :: "char \<Rightarrow> bool" where
  "is_space c \<longleftrightarrow> (of_char c :: nat) \<in> {9, 10, 11, 12, 13, 32, 160}"

definition trim :: "string \<Rightarrow> string" where
  "trim s = rev (dropWhile is_space (rev (dropWhile is_space s)))"

text \<open>\<^verbatim>\<open>String.prototype.toLowerCase\<close> on code units below 256.\<close>

definition lower_char :: "char \<Rightarrow> char" where
  "lower_char c =
     (let n = (of_char c :: nat)
      in if (65 \<le> n \<and> n \<le> 90) \<or> (192 \<le> n \<and> n \<le> 222 \<and> n \<noteq> 215)
         then char_of (n + 32) else c)"

definition toLowerCase :: "string \<Rightarrow> string" where
  "toLowerCase s = map lower_char s"

text \<open>\<^verbatim>\<open>arr.find(pred)\<close> followed by assignments to the found object.\<close>

fun update_first :: "('a \<Rightarrow> bool) \<Rightarrow> ('a \<Rightarrow> 'a) \<Rightarrow> 'a list \<Rightarrow> 'a list" where
  "update_first P f [] = []"
| "update_first P f (x # xs) = (if P x then f x # xs else x # update_first P f xs)"

text \<open>
  \<^verbatim>\<open>Math.round(a * 0.5)\<close> for an integer amount \<open>a\<close>: the nearest integer, a half
  going up.
\<close>

definition round_half :: "int \<Rightarrow> int" where
  "round_half a = (a + 1) div 2"

section \<open>Mock of the members' registry\<close>

text \<open>
  \<^verbatim>\<open>validateSocioByDNI\<close>: the last character of the trimmed DNI, through
  \<^verbatim>\<open>Number\<close>, is finite and even. \<^verbatim>\<open>Number("")\<close> is 0.
\<close>

definition validateSocioByDNI :: "string \<Rightarrow> bool" where
  "validateSocioByDNI dni =
     (let t = trim dni in if t = [] then True else last t \<in> set ''02468'')"

section \<open>Password policy\<close>

text \<open>
  \<^verbatim>\<open>/^(?=.*[A-Z])(?=.*[^A-Za-z0-9]).{6,}$/\<close>. The expression has no \<^verbatim>\<open>u\<close> flag, so it
  reads the password as UTF-16 code units, which the model keeps as 16-bit words: a
  password can hold any code unit, also above 255. The dot matches every code unit except the
  four line terminators LF, CR, U+2028 and U+2029; \<open>dot_star_then P\<close> is \<^verbatim>\<open>.*X\<close>
  matched at the start of the string, where \<open>P\<close> is the class \<^verbatim>\<open>X\<close>. \<open>ascii\<close> gives
  the code units of a literal.
\<close>

definition ascii :: "string \<Rightarrow> 16 word list" where
  "ascii s = map of_char s"

definition is_line_terminator :: "16 word \<Rightarrow> bool" where
  "is_line_terminator c \<longleftrightarrow> c \<in> {10, 13, 8232, 8233}"

definition is_AZ :: "16 word \<Rightarrow> bool" where
  "is_AZ c \<longleftrightarrow> 65 \<le> c \<and> c \<le> 90"

definition is_alnum :: "16 word \<Rightarrow> bool" where
  "is_alnum c \<longleftrightarrow> (65 \<le> c \<and> c \<le> 90) \<or> (97 \<le> c \<and> c \<le> 122) \<or> (48 \<le> c \<and> c \<le> 57)"

fun dot_star_then :: "(16 word \<Rightarrow> bool) \<Rightarrow> 16 word list \<Rightarrow> bool" where
  "dot_star_then P [] = False"
| "dot_star_then P (c # cs) = (P c \<or> (\<not> is_line_terminator c \<and> dot_star_then P cs))"

definition passRegex_test :: "16 word list \<Rightarrow> bool" where
  "passRegex_test pass \<longleftrightarrow>
     dot_star_then is_AZ pass \<and>
     dot_star_then (\<lambda>c. \<not> is_alnum c) pass \<and>
     6 \<le> length pass \<and> list_all (\<lambda>c. \<not> is_line_terminator c) pass"

section \<open>The local API\<close>

definition audit :: "env \<Rightarrow> nat \<Rightarrow> string \<Rightarrow> string \<Rightarrow> audit_detail \<Rightarrow> db \<Rightarrow> db" where
  "audit e k by action detail st =
     st\<lparr>st_audit :=
          \<lparr>a_id = uid e ''aud'' k, a_at = now e, a_by = by,
           a_action = action, a_detail = detail\<rparr> # st_audit st\<rparr>"

definition NOTIF_CHANNELS :: "string list" where
  "NOTIF_CHANNELS = [''Email'', ''WhatsApp Business'']"

definition notify ::
  "env \<Rightarrow> nat \<Rightarrow> notif_event \<Rightarrow> string list \<Rightarrow> string \<Rightarrow> notif_payload \<Rightarrow> db \<Rightarrow> db" where
  "notify e k event channels to payload st =
     st\<lparr>st_notifications :=
          map (\<lambda>(i, ch). \<lparr>n_id = uid e ''ntf'' i, n_at = now e, n_channel = ch,
                          n_to = to, n_event = event, n_payload = payload\<rparr>)
              (enumerate k channels)
          @ st_notifications st\<rparr>"

definition apply_patch :: "config \<Rightarrow> config_patch \<Rightarrow> config" where
  "apply_patch c p =
     \<lparr>authMode = (case patch_authMode p of None \<Rightarrow> authMode c | Some v \<Rightarrow> v),
      requireEmailValidation =
        (case patch_requireEmailValidation p of None \<Rightarrow> requireEmailValidation c | Some v \<Rightarrow> v),
      requirePhoneValidation =
        (case patch_requirePhoneValidation p of None \<Rightarrow> requirePhoneValidation c | Some v \<Rightarrow> v),
      priceSocio = (case patch_priceSocio p of None \<Rightarrow> priceSocio c | Some v \<Rightarrow> v),
      priceNoSocio = (case patch_priceNoSocio p of None \<Rightarrow> priceNoSocio c | Some v \<Rightarrow> v),
      currency = (case patch_currency p of None \<Rightarrow> currency c | Some v \<Rightarrow> v)\<rparr>"

definition setConfig :: "env \<Rightarrow> string \<Rightarrow> config_patch \<Rightarrow> db \<Rightarrow> db" where
  "setConfig e by patch st =
     audit e 0 by ''Config'' (DetailConfig patch)
       (st\<lparr>st_config := apply_patch (st_config st) patch\<rparr>)"

text \<open>
  \<^verbatim>\<open>register\<close> with the two states it works on made explicit. Its checks read
  \<^verbatim>\<open>db.users\<close>, the state \<open>snap\<close> the API object was built from; then it awaits
  \<^verbatim>\<open>validateSocioByDNI\<close>, and its \<^verbatim>\<open>commit\<close> pushes the user onto \<open>st\<close>, the state
  current at that moment, without checking again. The two are the same state when no
  other call commits in between.
\<close>

definition register ::
  "env \<Rightarrow> db \<Rightarrow> string \<Rightarrow> string \<Rightarrow> string \<Rightarrow> 16 word list \<Rightarrow> db
     \<Rightarrow> error + (string \<times> db)" where
  "register e snap email phone dni password st =
     (let dniClean = trim dni;
          emailClean = toLowerCase (trim email);
          phoneClean = trim phone;
          pass = password
      in if dniClean = [] \<or> length dniClean < 6 then Inl InvalidInputDni
         else if CHR ''@'' \<notin> set emailClean then Inl InvalidInputEmail
         else if phoneClean = [] then Inl InvalidInputPhone
         else if \<not> passRegex_test pass then Inl WeakPassword
         else if list_ex (\<lambda>u. u_email u = emailClean \<or> u_dni u = dniClean) (st_users snap)
           then Inl DuplicateUser
         else
           (let userType = (if validateSocioByDNI dniClean then Socio else NoSocio);
                newId = uid e ''usr'' 0;
                st1 = st\<lparr>st_users := st_users st @
                        [\<lparr>u_id = newId, u_role = RoleUser, u_email = emailClean,
                          u_phone = phoneClean, u_dni = dniClean, u_userType = userType,
                          u_createdAt = now e, u_passwordHash = pass,
                          u_isEmailValidated = False, u_isPhoneValidated = False\<rparr>]\<rparr>;
                st2 = audit e 1 newId ''Register'' (DetailRegister userType) st1;
                st3 = notify e 2 EvValidacionDeCuenta NOTIF_CHANNELS emailClean
                        PayloadCuentaCreada st2
            in Inr (newId, st3)))"

definition validateAccount :: "env \<Rightarrow> string \<Rightarrow> bool option \<Rightarrow> bool option \<Rightarrow> db \<Rightarrow> db" where
  "validateAccount e by emailOk phoneOk st =
     (let st1 = st\<lparr>st_users :=
                  update_first (\<lambda>x. u_id x = by)
                    (\<lambda>u. u\<lparr>u_isEmailValidated :=
                              (case emailOk of None \<Rightarrow> u_isEmailValidated u | Some v \<Rightarrow> v),
                            u_isPhoneValidated :=
                              (case phoneOk of None \<Rightarrow> u_isPhoneValidated u | Some v \<Rightarrow> v)\<rparr>)
                    (st_users st)\<rparr>;
          st2 = audit e 0 by ''Account'' (DetailAccount emailOk phoneOk) st1
      in case find (\<lambda>x. u_id x = by) (st_users st) of
           None \<Rightarrow> st2
         | Some u \<Rightarrow> notify e 1 EvValidacionDeCuenta NOTIF_CHANNELS (u_email u)
                      (PayloadValidacion emailOk phoneOk) st2)"

definition setCourtActive :: "env \<Rightarrow> string \<Rightarrow> string \<Rightarrow> bool \<Rightarrow> db \<Rightarrow> db" where
  "setCourtActive e by courtId isActive st =
     audit e 0 by ''Court'' (DetailCourt courtId isActive)
       (st\<lparr>st_courts := update_first (\<lambda>x. c_id x = courtId)
                           (\<lambda>c. c\<lparr>c_isActive := isActive\<rparr>) (st_courts st)\<rparr>)"

text \<open>In the audit detail, \<^verbatim>\<open>reason || "s/reason"\<close>.\<close>

definition addBlock ::
  "env \<Rightarrow> string \<Rightarrow> string \<Rightarrow> string \<Rightarrow> string \<Rightarrow> string \<Rightarrow> db \<Rightarrow> string \<times> db" where
  "addBlock e by courtId dateISO time reason st =
     (let newId = uid e ''blk'' 0;
          st1 = st\<lparr>st_blocks := st_blocks st @
                  [\<lparr>b_id = newId, b_courtId = courtId, b_dateISO = dateISO, b_time = time,
                    b_reason = reason, b_createdBy = by, b_createdAt = now e\<rparr>]\<rparr>
      in (newId, audit e 1 by ''Block''
                (DetailBlock courtId dateISO time (if reason = [] then ''s/reason'' else reason))
                st1))"

definition removeBlock :: "env \<Rightarrow> string \<Rightarrow> string \<Rightarrow> db \<Rightarrow> db" where
  "removeBlock e by blockId st =
     audit e 0 by ''Unblock'' (DetailUnblock blockId)
       (st\<lparr>st_blocks := filter (\<lambda>b. b_id b \<noteq> blockId) (st_blocks st)\<rparr>)"

text \<open>
  A relational comparison of two \<^verbatim>\<open>Date\<close> objects compares their time values; with
  an Invalid Date (\<open>None\<close>) on either side it is false.
\<close>

definition date_lt :: "int option \<Rightarrow> int option \<Rightarrow> bool" where
  "date_lt a b = (case a of None \<Rightarrow> False
                  | Some x \<Rightarrow> (case b of None \<Rightarrow> False | Some y \<Rightarrow> x < y))"

text \<open>\<^verbatim>\<open>forUserId || by\<close>: an absent or empty \<^verbatim>\<open>forUserId\<close> is falsy.\<close>

definition or_by :: "string option \<Rightarrow> string \<Rightarrow> string" where
  "or_by forUserId by =
     (case forUserId of None \<Rightarrow> by | Some f \<Rightarrow> if f = [] then by else f)"

text \<open>
  \<^verbatim>\<open>createReservation\<close> with the two states it works on made explicit. Every check,
  and the price, reads \<^verbatim>\<open>db\<close>, the state \<open>snap\<close> the API object was built from; the
  \<^verbatim>\<open>commit\<close> pushes the reservation and its payment onto \<open>st\<close>, the state current
  when the update runs, without checking again.
\<close>

definition createReservation_on ::
  "db \<Rightarrow> env \<Rightarrow> string \<Rightarrow> string \<Rightarrow> string \<Rightarrow> string \<Rightarrow> string option \<Rightarrow> db
     \<Rightarrow> error + (string \<times> db)" where
  "createReservation_on snap e by dateISO time courtId forUserId st =
     (case find (\<lambda>x. u_id x = or_by forUserId by) (st_users snap) of
        None \<Rightarrow> Inl InvalidUser
      | Some u \<Rightarrow>
         (let cfg = st_config snap;
              today0 = Some (today e);
              target = dayOf e dateISO;
              max7 = Some (today e + 7)
          in if requireEmailValidation cfg \<and> \<not> u_isEmailValidated u
               then Inl AccountNotValidatedEmail
             else if requirePhoneValidation cfg \<and> \<not> u_isPhoneValidated u
               then Inl AccountNotValidatedPhone
             else if date_lt target today0 then Inl PastDate
             else if date_lt max7 target then Inl TooFarAhead
             else if (case find (\<lambda>x. c_id x = courtId) (st_courts snap) of
                        None \<Rightarrow> True | Some c \<Rightarrow> \<not> c_isActive c)
               then Inl ResourceUnavailable
             else if list_ex (\<lambda>b. b_courtId b = courtId \<and> b_dateISO b = dateISO \<and>
                                   b_time b = time) (st_blocks snap)
               then Inl SlotBlocked
             else if list_ex (\<lambda>r. r_courtId r = courtId \<and> r_dateISO r = dateISO \<and>
                                   r_time r = time \<and> r_status r \<noteq> CANCELLED)
                       (st_reservations snap)
               then Inl SlotTaken
             else if list_ex (\<lambda>r. r_userId r = u_id u \<and> r_dateISO r = dateISO \<and>
                                   r_time r = time \<and> r_status r \<noteq> CANCELLED)
                       (st_reservations snap)
               then Inl UserDoubleBooked
             else
               (let newId = uid e ''res'' 0;
                    price = (if u_userType u = Socio then priceSocio (st_config snap)
                             else priceNoSocio (st_config snap));
                    st1 = st\<lparr>st_reservations := st_reservations st @
                            [\<lparr>r_id = newId, r_userId = u_id u, r_createdBy = by,
                              r_dateISO = dateISO, r_time = time, r_courtId = courtId,
                              r_status = PENDING_PAYMENT, r_price = price,
                              r_createdAt = now e, r_updatedAt = now e,
                              r_cancelReason = None\<rparr>],
                          st_payments := st_payments st @
                            [\<lparr>p_id = uid e ''pay'' 1, p_reservationId = newId,
                              p_method = None, p_status = PENDING, p_amount = price,
                              p_createdAt = now e, p_updatedAt = now e,
                              p_meta = \<lparr>m_mp = None, m_cash = None, m_refund = None\<rparr>\<rparr>]\<rparr>;
                    st2 = audit e 2 by ''Reserva'' (DetailCreada newId dateISO time courtId) st1;
                    st3 = notify e 3 EvReservaCreada NOTIF_CHANNELS (u_email u)
                            (PayloadReserva newId dateISO time courtId price) st2
                in Inr (newId, st3))))"

text \<open>
  A call of \<^verbatim>\<open>createReservation\<close> on an API object built from the state it commits on.
\<close>

definition createReservation ::
  "env \<Rightarrow> string \<Rightarrow> string \<Rightarrow> string \<Rightarrow> string \<Rightarrow> string option \<Rightarrow> db
     \<Rightarrow> error + (string \<times> db)" where
  "createReservation e by dateISO time courtId forUserId st =
     createReservation_on st e by dateISO time courtId forUserId st"

text \<open>
  The user notified after a payment, cancellation or no-show is looked up in \<^verbatim>\<open>db\<close>,
  the state the API object was built from, not in the state the mutation ran on.
\<close>

definition reservation_owner :: "db \<Rightarrow> string \<Rightarrow> user option" where
  "reservation_owner snap reservationId =
     (case find (\<lambda>x. r_id x = reservationId) (st_reservations snap) of
        None \<Rightarrow> None
      | Some r \<Rightarrow> find (\<lambda>x. u_id x = r_userId r) (st_users snap))"

definition payWithMercadoPago :: "env \<Rightarrow> string \<Rightarrow> string \<Rightarrow> db \<Rightarrow> db" where
  "payWithMercadoPago e by reservationId st =
     (let st1 =
            (case find (\<lambda>x. r_id x = reservationId) (st_reservations st) of
               None \<Rightarrow> st
             | Some r \<Rightarrow>
                (case find (\<lambda>x. p_reservationId x = reservationId) (st_payments st) of
                   None \<Rightarrow> st
                 | Some p \<Rightarrow>
                    st\<lparr>st_payments :=
                         update_first (\<lambda>x. p_reservationId x = reservationId)
                           (\<lambda>p. p\<lparr>p_method := Some MercadoPago, p_status := APPROVED,
                                   p_updatedAt := now e,
                                   p_meta := \<lparr>m_mp = Some \<lparr>mp_status = ''approved'',
                                                  mp_operationId = uid e ''mp'' 0,
                                                  mp_at = now e\<rparr>,
                                               m_cash = None, m_refund = None\<rparr>\<rparr>)
                           (st_payments st),
                       st_reservations :=
                         update_first (\<lambda>x. r_id x = reservationId)
                           (\<lambda>r. r\<lparr>r_status := CONFIRMED, r_updatedAt := now e\<rparr>)
                           (st_reservations st)\<rparr>));
          st2 = audit e 1 by ''Pago'' (DetailMPAprobado reservationId) st1
      in case reservation_owner st reservationId of
           None \<Rightarrow> st2
         | Some u \<Rightarrow> notify e 2 EvPagoConfirmado NOTIF_CHANNELS (u_email u)
                      (PayloadPago reservationId None) st2)"

text \<open>
  \<^verbatim>\<open>registerCashPayment\<close> with the snapshot \<open>snap\<close> of its API object and the number
  \<open>k\<close> of \<^verbatim>\<open>uid\<close> call sites already passed made explicit:
  \<^verbatim>\<open>adminCreateManualReservation\<close> calls it on an API object built from the state
  before the reservation was created.
\<close>

definition registerCashPayment_on :: "db \<Rightarrow> nat \<Rightarrow> env \<Rightarrow> string \<Rightarrow> string \<Rightarrow> db \<Rightarrow> db" where
  "registerCashPayment_on snap k e by reservationId st =
     (let st1 =
            (case find (\<lambda>x. r_id x = reservationId) (st_reservations st) of
               None \<Rightarrow> st
             | Some r \<Rightarrow>
                (case find (\<lambda>x. p_reservationId x = reservationId) (st_payments st) of
                   None \<Rightarrow> st
                 | Some p \<Rightarrow>
                    st\<lparr>st_payments :=
                         update_first (\<lambda>x. p_reservationId x = reservationId)
                           (\<lambda>p. p\<lparr>p_method := Some Efectivo, p_status := APPROVED,
                                   p_updatedAt := now e,
                                   p_meta := \<lparr>m_mp = None,
                                               m_cash = Some \<lparr>cash_by = by, cash_at = now e\<rparr>,
                                               m_refund = None\<rparr>\<rparr>)
                           (st_payments st),
                       st_reservations :=
                         update_first (\<lambda>x. r_id x = reservationId)
                           (\<lambda>r. r\<lparr>r_status := CONFIRMED, r_updatedAt := now e\<rparr>)
                           (st_reservations st)\<rparr>));
          st2 = audit e k by ''Pago'' (DetailEfectivoAprobado reservationId) st1
      in case reservation_owner snap reservationId of
           None \<Rightarrow> st2
         | Some u \<Rightarrow> notify e (k + 1) EvPagoConfirmado NOTIF_CHANNELS (u_email u)
                      (PayloadPago reservationId (Some ''cash'')) st2)"

definition registerCashPayment :: "env \<Rightarrow> string \<Rightarrow> string \<Rightarrow> db \<Rightarrow> db" where
  "registerCashPayment e by reservationId st =
     registerCashPayment_on st 0 e by reservationId st"

text \<open>
  \<^verbatim>\<open>reason\<close> may be absent; the stored reason is \<^verbatim>\<open>reason || ""\<close>, the audit detail
  uses \<^verbatim>\<open>reason || "sin motivo"\<close>, the notification carries \<^verbatim>\<open>reason\<close> itself.
\<close>

definition cancelReservation :: "env \<Rightarrow> string \<Rightarrow> string \<Rightarrow> string option \<Rightarrow> db \<Rightarrow> db" where
  "cancelReservation e by reservationId reason st =
     (let st1 = st\<lparr>st_reservations :=
                  update_first (\<lambda>x. r_id x = reservationId)
                    (\<lambda>r. r\<lparr>r_status := CANCELLED, r_updatedAt := now e,
                            r_cancelReason := Some (case reason of None \<Rightarrow> [] | Some s \<Rightarrow> s)\<rparr>)
                    (st_reservations st)\<rparr>;
          st2 = audit e 0 by ''Reserva''
                  (DetailCancelada reservationId
                     (case reason of None \<Rightarrow> ''sin motivo''
                      | Some s \<Rightarrow> if s = [] then ''sin motivo'' else s)) st1
      in case reservation_owner st reservationId of
           None \<Rightarrow> st2
         | Some u \<Rightarrow> notify e 1 EvCancelacion NOTIF_CHANNELS (u_email u)
                      (PayloadCancelacion reservationId reason) st2)"

definition markNoShowAndRefund50 :: "env \<Rightarrow> string \<Rightarrow> string \<Rightarrow> db \<Rightarrow> db" where
  "markNoShowAndRefund50 e by reservationId st =
     (let st1 =
            (case find (\<lambda>x. r_id x = reservationId) (st_reservations st) of
               None \<Rightarrow> st
             | Some r \<Rightarrow>
                (case find (\<lambda>x. p_reservationId x = reservationId) (st_payments st) of
                   None \<Rightarrow> st
                 | Some p \<Rightarrow>
                    st\<lparr>st_reservations :=
                         update_first (\<lambda>x. r_id x = reservationId)
                           (\<lambda>r. r\<lparr>r_status := NO_SHOW, r_updatedAt := now e\<rparr>)
                           (st_reservations st),
                       st_payments :=
                         update_first (\<lambda>x. p_reservationId x = reservationId)
                           (\<lambda>p. p\<lparr>p_status := REFUNDED_PARTIAL, p_updatedAt := now e,
                                   p_meta := (p_meta p)\<lparr>m_refund :=
                                     Some \<lparr>rf_percent = 50, rf_amount = round_half (p_amount p),
                                           rf_by = by, rf_at = now e\<rparr>\<rparr>\<rparr>)
                           (st_payments st)\<rparr>));
          st2 = audit e 0 by ''NoShow'' (DetailNoShow reservationId) st1
      in case reservation_owner st reservationId of
           None \<Rightarrow> st2
         | Some u \<Rightarrow>
             notify e 3 EvReintegros NOTIF_CHANNELS (u_email u) (PayloadRefund reservationId 50)
               (notify e 1 EvNoPresentacion NOTIF_CHANNELS (u_email u)
                  (PayloadRefund reservationId 50) st2))"

text \<open>
  \<^verbatim>\<open>createReservation\<close>, then \<^verbatim>\<open>registerCashPayment\<close> when \<^verbatim>\<open>markPaidCash\<close>, both on
  API objects built from the state before the call; a failing \<^verbatim>\<open>createReservation\<close>
  rejects the whole call.
\<close>

definition adminCreateManualReservation ::
  "env \<Rightarrow> string \<Rightarrow> string option \<Rightarrow> string \<Rightarrow> string \<Rightarrow> string \<Rightarrow> bool \<Rightarrow> db
     \<Rightarrow> error + (string \<times> db)" where
  "adminCreateManualReservation e by userId dateISO time courtId markPaidCash st =
     (case createReservation e by dateISO time courtId userId st of
        Inl err \<Rightarrow> Inl err
      | Inr (resId, st1) \<Rightarrow>
         (let st2 = (if markPaidCash then registerCashPayment_on st 5 e by resId st1 else st1)
          in Inr (resId, audit e 8 by ''Admin'' (DetailReservaManual resId) st2)))"

section \<open>Seed state and runs of the API\<close>

definition APP_CONFIG_DEFAULT :: config where
  "APP_CONFIG_DEFAULT =
     \<lparr>authMode = ''EMAIL_PASSWORD'', requireEmailValidation = True,
      requirePhoneValidation = True, priceSocio = 0, priceNoSocio = 8000,
      currency = ''ARS''\<rparr>"

definition COURTS_DEFAULT :: "court list" where
  "COURTS_DEFAULT =
     [\<lparr>c_id = ''c1'', c_name = ''Cancha 1'', c_isActive = True\<rparr>,
      \<lparr>c_id = ''c2'', c_name = ''Cancha 2'', c_isActive = True\<rparr>,
      \<lparr>c_id = ''c3'', c_name = ''Cancha 3'', c_isActive = True\<rparr>,
      \<lparr>c_id = ''c4'', c_name = ''Cancha 4'', c_isActive = True\<rparr>]"

text \<open>\<^verbatim>\<open>bootstrapState\<close> when nothing is stored yet.\<close>

definition seed :: "env \<Rightarrow> db" where
  "seed e =
     \<lparr>st_config = APP_CONFIG_DEFAULT,
      st_courts = COURTS_DEFAULT,
      st_users =
        [\<lparr>u_id = uid e ''usr'' 0, u_role = RoleAdmin, u_email = ''admin@edlp.com'',
          u_phone = ''11-0000-0000'', u_dni = ''12345678'', u_userType = Socio,
          u_createdAt = now e, u_passwordHash = ascii ''admin'',
          u_isEmailValidated = True, u_isPhoneValidated = True\<rparr>],
      st_sessions = None,
      st_reservations = [],
      st_payments = [],
      st_blocks = [],
      st_audit =
        [\<lparr>a_id = uid e ''aud'' 1, a_at = now e, a_by = uid e ''usr'' 0,
          a_action = ''Seed'', a_detail = DetailSeed\<rparr>],
      st_notifications = []\<rparr>"

text \<open>
  One call of a mutating operation of the API, made on an API object built from the state
  it commits on: no other call commits between its checks and its commit. A call that
  throws commits nothing, so the state after it is the state before it.
\<close>

datatype op =
    Register string string string "16 word list"
  | ValidateAccount string "bool option" "bool option"
  | CreateReservation string string string string "string option"
  | PayWithMercadoPago string string
  | RegisterCashPayment string string
  | CancelReservation string string "string option"
  | MarkNoShowAndRefund50 string string
  | AdminCreateManualReservation string "string option" string string string bool
  | AddBlock string string string string string
  | RemoveBlock string string
  | SetCourtActive string string bool
  | SetConfig string config_patch

fun api_step :: "env \<Rightarrow> op \<Rightarrow> db \<Rightarrow> db" where
  "api_step e (Register email phone dni password) st =
     (case register e st email phone dni password st of
        Inl err \<Rightarrow> st | Inr (newId, st') \<Rightarrow> st')"
| "api_step e (ValidateAccount by emailOk phoneOk) st = validateAccount e by emailOk phoneOk st"
| "api_step e (CreateReservation by dateISO time courtId forUserId) st =
     (case createReservation e by dateISO time courtId forUserId st of
        Inl err \<Rightarrow> st | Inr (newId, st') \<Rightarrow> st')"
| "api_step e (PayWithMercadoPago by reservationId) st = payWithMercadoPago e by reservationId st"
| "api_step e (RegisterCashPayment by reservationId) st = registerCashPayment e by reservationId st"
| "api_step e (CancelReservation by reservationId reason) st =
     cancelReservation e by reservationId reason st"
| "api_step e (MarkNoShowAndRefund50 by reservationId) st =
     markNoShowAndRefund50 e by reservationId st"
| "api_step e (AdminCreateManualReservation by userId dateISO time courtId markPaidCash) st =
     (case adminCreateManualReservation e by userId dateISO time courtId markPaidCash st of
        Inl err \<Rightarrow> st | Inr (newId, st') \<Rightarrow> st')"
| "api_step e (AddBlock by courtId dateISO time reason) st =
     snd (addBlock e by courtId dateISO time reason st)"
| "api_step e (RemoveBlock by blockId) st = removeBlock e by blockId st"
| "api_step e (SetCourtActive by courtId isActive) st = setCourtActive e by courtId isActive st"
| "api_step e (SetConfig by patch) st = setConfig e by patch st"

text \<open>
  The states reached from the seed by such calls, one after another, whatever the runtime
  answers. Calls that overlap reach more states; every state here is one the program
  reaches.
\<close>

inductive reachable :: "db \<Rightarrow> bool" where
  reachable_seed: "reachable (seed e)"
| reachable_step: "reachable st \<Longrightarrow> reachable (api_step e a st)"

text \<open>A run of the API: the calls in order, each with the runtime's answers during it.\<close>

fun api_run :: "(env \<times> op) list \<Rightarrow> db \<Rightarrow> db" where
  "api_run [] st = st"
| "api_run ((e, a) # calls) st = api_run calls (api_step e a st)"

section \<open>The status the interface shows\<close>

text \<open>
  No operation of the API reads the current status of the reservation it changes. The
  buttons that call them do, when they are drawn: \<^verbatim>\<open>PaymentDialog\<close> and
  \<^verbatim>\<open>AdminReservationActions\<close> look the reservation up with
  \<^verbatim>\<open>db.reservations.find((r) => r.id === reservationId)\<close> and disable their buttons by
  its \<^verbatim>\<open>status\<close>.
\<close>

definition shown_status :: "db \<Rightarrow> string \<Rightarrow> res_status option" where
  "shown_status st reservationId =
     map_option r_status (find (\<lambda>r. r_id r = reservationId) (st_reservations st))"

section \<open>Concrete runs\<close>

text \<open>
  Three runtimes on 2026-11-03 (day 20760 of the epoch) that differ in what \<^verbatim>\<open>uid\<close>
  draws, and the seed state whose admin is \<^verbatim>\<open>usr_1\<close>.
\<close>

definition env1 :: env where
  "env1 = \<lparr>now = ''2026-11-03T12:00:00.000Z'', today = 20760,
           dayOf = (\<lambda>s. if s = ''2026-11-03'' then Some 20760
                         else if s = ''2026-11-10'' then Some 20767
                         else if s = ''2026-11-11'' then Some 20768
                         else if s = ''2026-11-02'' then Some 20759 else None),
           rnd = (\<lambda>k. ''1'')\<rparr>"

definition env2 :: env where
  "env2 = env1\<lparr>rnd := (\<lambda>k. ''2'')\<rparr>"

definition env3 :: env where
  "env3 = env1\<lparr>rnd := (\<lambda>k. ''3'')\<rparr>"

definition seed1 :: db where
  "seed1 = seed env1"

text \<open>
  Two passwords of seven code units with an upper-case letter and a symbol, the last code
  unit a line feed in one and the line separator U+2028 in the other.
\<close>

definition newline_password :: "16 word list" where
  "newline_password = ascii ''Abcde!'' @ [10]"

definition separator_password :: "16 word list" where
  "separator_password = ascii ''Abcde!'' @ [8232]"

text \<open>
  The lookups every operation starts with:
  \<^verbatim>\<open>st.reservations.find((x) => x.id === reservationId)\<close>,
  \<^verbatim>\<open>st.payments.find((x) => x.reservationId === reservationId)\<close> and
  \<^verbatim>\<open>db.users.find((x) => x.id === (forUserId || by))\<close>.
\<close>

definition find_reservation :: "db \<Rightarrow> string \<Rightarrow> reservation option" where
  "find_reservation st reservationId =
     find (\<lambda>x. r_id x = reservationId) (st_reservations st)"

definition find_payment :: "db \<Rightarrow> string \<Rightarrow> payment option" where
  "find_payment st reservationId =
     find (\<lambda>x. p_reservationId x = reservationId) (st_payments st)"

definition target_user :: "db \<Rightarrow> string \<Rightarrow> string option \<Rightarrow> user option" where
  "target_user st by forUserId = find (\<lambda>x. u_id x = or_by forUserId by) (st_users st)"

text \<open>
  The price of a new reservation:
  \<^verbatim>\<open>u.userType === "Socio" ? db.config.priceSocio : db.config.priceNoSocio\<close>.
\<close>

definition price_for :: "config \<Rightarrow> user \<Rightarrow> int" where
  "price_for cfg u = (if u_userType u = Socio then priceSocio cfg else priceNoSocio cfg)"

text \<open>
  The registration of Ana (not a member: her DNI ends in 3) with the phone number of
  the seeded admin, her validation, a reservation, its cancellation, a second
  reservation of the same slot, and the online payment of the cancelled one.
\<close>

definition registered1 :: db where
  "registered1 =
     api_step env2 (Register ''Ana@Mail.com'' ''11-0000-0000'' ''30111223'' (ascii ''Abc123!''))
       seed1"

definition validated1 :: db where
  "validated1 = api_step env1 (ValidateAccount ''usr_2'' (Some True) (Some True)) registered1"

definition created1 :: db where
  "created1 =
     api_step env1 (CreateReservation ''usr_2'' ''2026-11-03'' ''10:00'' ''c1'' None) validated1"

definition cancelled1 :: db where
  "cancelled1 =
     api_step env1 (CancelReservation ''usr_2'' ''res_1'' (Some ''Cancelacion por usuario''))
       created1"

definition recreated1 :: db where
  "recreated1 =
     api_step env2 (CreateReservation ''usr_2'' ''2026-11-03'' ''10:00'' ''c1'' None) cancelled1"

definition revived1 :: db where
  "revived1 = api_step env1 (PayWithMercadoPago ''usr_2'' ''res_1'') recreated1"

text \<open>
  After Ana's first reservation, the admin raises the non-members' price to 9000 and Ana
  books court c2 at 11:00.
\<close>

definition price_patch :: config_patch where
  "price_patch =
     \<lparr>patch_authMode = None, patch_requireEmailValidation = None,
      patch_requirePhoneValidation = None, patch_priceSocio = Some 0,
      patch_priceNoSocio = Some 9000, patch_currency = None\<rparr>"

definition price_change_run :: "(env \<times> op) list" where
  "price_change_run =
     [(env1, SetConfig ''usr_1'' price_patch),
      (env2, CreateReservation ''usr_2'' ''2026-11-03'' ''11:00'' ''c2'' None)]"

text \<open>Ana's first reservation paid online, then marked as a no-show by the admin.\<close>

definition paid1 :: db where
  "paid1 = api_step env1 (PayWithMercadoPago ''usr_2'' ''res_1'') created1"

definition noshow1 :: db where
  "noshow1 = api_step env1 (MarkNoShowAndRefund50 ''usr_1'' ''res_1'') paid1"

text \<open>
  Two calls that overlap. A second \<^verbatim>\<open>register\<close> of Ana whose checks ran on the seed
  state, before her first registration committed; and a second \<^verbatim>\<open>createReservation\<close>
  of her slot whose checks ran on the state before the first one committed.
\<close>

definition registered_twice1 :: db where
  "registered_twice1 =
     (case register env3 seed1 ''Ana@Mail.com'' ''221-555'' ''30111223'' (ascii ''Abc123!'')
             registered1 of
        Inl err \<Rightarrow> registered1 | Inr (newId, st') \<Rightarrow> st')"

definition created_twice1 :: db where
  "created_twice1 =
     (case createReservation_on validated1 env2 ''usr_2'' ''2026-11-03'' ''10:00'' ''c1'' None
             created1 of
        Inl err \<Rightarrow> created1 | Inr (newId, st') \<Rightarrow> st')"

text \<open>
  The two uniqueness rules of the booking engine, on the list of reservations: among the
  reservations that are not cancelled no two have the same court, date and slot, and no
  two have the same user, date and slot.
\<close>

definition active :: "reservation \<Rightarrow> bool" where
  "active r \<longleftrightarrow> r_status r \<noteq> CANCELLED"

definition slot_key :: "reservation \<Rightarrow> string \<times> string \<times> string" where
  "slot_key r = (r_courtId r, r_dateISO r, r_time r)"

definition user_key :: "reservation \<Rightarrow> string \<times> string \<times> string" where
  "user_key r = (r_userId r, r_dateISO r, r_time r)"

definition no_double_booking :: "reservation list \<Rightarrow> bool" where
  "no_double_booking rs \<longleftrightarrow>
     distinct (map slot_key (filter active rs)) \<and> distinct (map user_key (filter active rs))"

section \<open>The validation pipeline as the specification words it\<close>

text \<open>
  The nine checks of \<open>CreateReservation\<close> in the order the specification lists them,
  each with the error it reports; the first check that fails decides the error.
\<close>

definition spec_checks ::
  "env \<Rightarrow> string \<Rightarrow> string \<Rightarrow> string \<Rightarrow> string \<Rightarrow> string option \<Rightarrow> db
     \<Rightarrow> (bool \<times> error) list" where
  "spec_checks e by dateISO time courtId forUserId st =
     [(target_user st by forUserId = None, InvalidUser),
      (requireEmailValidation (st_config st) \<and>
         (case target_user st by forUserId of None \<Rightarrow> False
          | Some u \<Rightarrow> \<not> u_isEmailValidated u),
       AccountNotValidatedEmail),
      (requirePhoneValidation (st_config st) \<and>
         (case target_user st by forUserId of None \<Rightarrow> False
          | Some u \<Rightarrow> \<not> u_isPhoneValidated u),
       AccountNotValidatedPhone),
      (case dayOf e dateISO of None \<Rightarrow> False | Some t \<Rightarrow> t < today e, PastDate),
      (case dayOf e dateISO of None \<Rightarrow> False | Some t \<Rightarrow> 7 < t - today e, TooFarAhead),
      (\<not> (\<exists>c \<in> set (st_courts st). c_id c = courtId) \<or>
         (case find (\<lambda>x. c_id x = courtId) (st_courts st) of None \<Rightarrow> False
          | Some c \<Rightarrow> \<not> c_isActive c),
       ResourceUnavailable),
      (\<exists>b \<in> set (st_blocks st).
          b_courtId b = courtId \<and> b_dateISO b = dateISO \<and> b_time b = time,
       SlotBlocked),
      (\<exists>r \<in> set (st_reservations st). r_status r \<noteq> CANCELLED \<and>
          r_courtId r = courtId \<and> r_dateISO r = dateISO \<and> r_time r = time,
       SlotTaken),
      (\<exists>r \<in> set (st_reservations st). r_status r \<noteq> CANCELLED \<and>
          r_userId r = or_by forUserId by \<and> r_dateISO r = dateISO \<and> r_time r = time,
       UserDoubleBooked)]"

definition first_failure :: "(bool \<times> error) list \<Rightarrow> error option" where
  "first_failure checks = map_option snd (find fst checks)"

definition error_of :: "error + 'a \<Rightarrow> error option" where
  "error_of res = (case res of Inl err \<Rightarrow> Some err | Inr v \<Rightarrow> None)"

section \<open>Lemmas on the utilities\<close>

lemma dot_star_then_list_ex:
  "list_all (\<lambda>c. \<not> is_line_terminator c) s \<Longrightarrow> dot_star_then P s = list_ex P s"
  by (induction s) auto

lemma passRegex_test_iff:
  "passRegex_test pass \<longleftrightarrow>
     6 \<le> length pass \<and> list_ex is_AZ pass \<and> list_ex (\<lambda>c. \<not> is_alnum c) pass \<and>
     list_all (\<lambda>c. \<not> is_line_terminator c) pass"
  unfolding passRegex_test_def using dot_star_then_list_ex by blast

section \<open>Password policy of register\<close>

text \<open>
  C9 (as amended). \<^verbatim>\<open>register\<close> fails with \<open>WeakPassword\<close> exactly when the DNI, email
  and phone checks before it pass and the password does not satisfy all of: length at
  least 6, at least one letter \<^verbatim>\<open>A-Z\<close>, at least one code unit outside
  \<^verbatim>\<open>A-Za-z0-9\<close>, and no line terminator (LF, CR, U+2028, U+2029). The password
  \<^verbatim>\<open>abc123\<close> fails the policy and \<^verbatim>\<open>Abc123!\<close> passes it.
\<close>

theorem register_WeakPassword_iff:
  "(register e snap email phone dni password st = Inl WeakPassword \<longleftrightarrow>
      6 \<le> length (trim dni) \<and> CHR ''@'' \<in> set (toLowerCase (trim email)) \<and>
      trim phone \<noteq> [] \<and>
      \<not> (6 \<le> length password \<and> list_ex (\<lambda>c. 65 \<le> c \<and> c \<le> 90) password \<and>
         list_ex (\<lambda>c. \<not> ((65 \<le> c \<and> c \<le> 90) \<or> (97 \<le> c \<and> c \<le> 122) \<or>
                          (48 \<le> c \<and> c \<le> 57))) password \<and>
         list_all (\<lambda>c. c \<noteq> 10 \<and> c \<noteq> 13 \<and> c \<noteq> 8232 \<and> c \<noteq> 8233) password)) \<and>
   \<not> passRegex_test (ascii ''abc123'') \<and> passRegex_test (ascii ''Abc123!'')"
proof -
  have "\<not> passRegex_test (ascii ''abc123'')"
    by (simp add: passRegex_test_def ascii_def is_AZ_def)
  moreover have "passRegex_test (ascii ''Abc123!'')"
    by (simp add: passRegex_test_def ascii_def is_AZ_def is_alnum_def is_line_terminator_def)
  moreover have "register e snap email phone dni password st = Inl WeakPassword \<longleftrightarrow>
      6 \<le> length (trim dni) \<and> CHR ''@'' \<in> set (toLowerCase (trim email)) \<and>
      trim phone \<noteq> [] \<and> \<not> passRegex_test password"
    by (auto simp: register_def Let_def)
  moreover have "passRegex_test password \<longleftrightarrow>
      6 \<le> length password \<and> list_ex (\<lambda>c. 65 \<le> c \<and> c \<le> 90) password \<and>
      list_ex (\<lambda>c. \<not> ((65 \<le> c \<and> c \<le> 90) \<or> (97 \<le> c \<and> c \<le> 122) \<or>
                       (48 \<le> c \<and> c \<le> 57))) password \<and>
      list_all (\<lambda>c. c \<noteq> 10 \<and> c \<noteq> 13 \<and> c \<noteq> 8232 \<and> c \<noteq> 8233) password"
    unfolding passRegex_test_iff is_AZ_def is_alnum_def is_line_terminator_def
    by simp
  ultimately show ?thesis
    by blast
qed

text \<open>
  On the seed state, with a valid DNI, email and phone, \<^verbatim>\<open>abc123\<close> is rejected as weak.
\<close>

theorem register_WeakPassword_witness:
  "register env1 seed1 ''ana@mail.com'' ''221-555'' ''30111222'' (ascii ''abc123'') seed1
     = Inl WeakPassword"
proof -
  have "6 \<le> length (trim ''30111222'')"
    and "CHR ''@'' \<in> set (toLowerCase (trim ''ana@mail.com''))"
    and "trim ''221-555'' \<noteq> []"
    and "\<not> list_ex (\<lambda>c. 65 \<le> c \<and> c \<le> 90) (ascii ''abc123'')"
    by (simp_all add: trim_def is_space_def toLowerCase_def lower_char_def ascii_def)
  then show ?thesis
    using register_WeakPassword_iff
      [of env1 seed1 "''ana@mail.com''" "''221-555''" "''30111222''" "ascii ''abc123''" seed1]
    by blast
qed

text \<open>
  The claim as stated fails: a password of seven code units with an upper-case letter and
  a symbol is rejected as weak when it holds a line feed or a line separator, which the
  dot of the regular expression does not match.
\<close>

theorem register_WeakPassword_counterexample:
  "6 \<le> length newline_password \<and> list_ex is_AZ newline_password \<and>
   list_ex (\<lambda>c. \<not> is_alnum c) newline_password \<and>
   register env1 seed1 ''ana@mail.com'' ''221-555'' ''30111222'' newline_password seed1
     = Inl WeakPassword \<and>
   6 \<le> length separator_password \<and> list_ex is_AZ separator_password \<and>
   list_ex (\<lambda>c. \<not> is_alnum c) separator_password \<and>
   register env1 seed1 ''ana@mail.com'' ''221-555'' ''30111222'' separator_password seed1
     = Inl WeakPassword"
  by (simp add: newline_password_def separator_password_def ascii_def register_def
      passRegex_test_def is_AZ_def is_alnum_def is_line_terminator_def trim_def is_space_def
      toLowerCase_def lower_char_def Let_def)

lemma find_Some_P: "find P xs = Some x \<Longrightarrow> P x"
  by (induction xs) (auto split: if_splits)

lemma find_Some_set: "find P xs = Some x \<Longrightarrow> x \<in> set xs"
  by (induction xs) (auto split: if_splits)

lemma find_None_set: "find P xs = None \<longleftrightarrow> \<not> (\<exists>x\<in>set xs. P x)"
  by (induction xs) auto

lemma update_first_None: "find P xs = None \<Longrightarrow> update_first P f xs = xs"
  by (induction xs) (auto split: if_splits)

lemma length_update_first: "length (update_first P f xs) = length xs"
  by (induction xs) auto

lemma find_update_first:
  "find P xs = Some r \<Longrightarrow> (\<And>x. P x \<Longrightarrow> P (f x))
     \<Longrightarrow> find P (update_first P f xs) = Some (f r)"
  by (induction xs) (auto split: if_splits)

lemma map_update_first:
  "(\<And>x. g (f x) = g x) \<Longrightarrow> map g (update_first P f xs) = map g xs"
  by (induction xs) auto

lemma nth_update_first:
  "find P xs = Some r \<Longrightarrow> i < length xs \<Longrightarrow>
     update_first P f xs ! i = xs ! i \<or> (xs ! i = r \<and> update_first P f xs ! i = f r)"
proof (induction xs arbitrary: i)
  case Nil
  then show ?case by simp
next
  case (Cons x xs)
  then show ?case by (cases i) (auto split: if_splits)
qed

lemma round_half_eq: "round_half a = round (real_of_int a * 0.5)"
proof -
  have "round (real_of_int a * 0.5) = \<lfloor>real_of_int (a + 1) / real_of_int 2\<rfloor>"
    by (simp add: round_def add_divide_distrib)
  also have "\<dots> = (a + 1) div 2"
    by (rule floor_divide_of_int_eq)
  finally show ?thesis by (simp add: round_half_def)
qed

lemma st_reservations_audit [simp]:
  "st_reservations (audit e k by action detail st) = st_reservations st"
  by (simp add: audit_def)

lemma st_payments_audit [simp]:
  "st_payments (audit e k by action detail st) = st_payments st"
  by (simp add: audit_def)

lemma st_users_audit [simp]:
  "st_users (audit e k by action detail st) = st_users st"
  by (simp add: audit_def)

lemma st_reservations_notify [simp]:
  "st_reservations (notify e k ev chs to pl st) = st_reservations st"
  by (simp add: notify_def)

lemma st_payments_notify [simp]:
  "st_payments (notify e k ev chs to pl st) = st_payments st"
  by (simp add: notify_def)

lemma st_users_notify [simp]:
  "st_users (notify e k ev chs to pl st) = st_users st"
  by (simp add: notify_def)

section \<open>Online payment\<close>

text \<open>
  C3 (as amended). \<^verbatim>\<open>payWithMercadoPago\<close> checks no status and never fails. Whatever
  the current status of the reservation, when the reservation and its payment exist the
  reservation becomes Confirmed and the payment Approved with method Mercado Pago and a
  fresh operation reference; when either is missing, the reservations and the payments
  stay as they were.
\<close>

theorem payWithMercadoPago_any_status:
  "(find_reservation st rid = Some r \<longrightarrow> find_payment st rid = Some p \<longrightarrow>
      find_reservation (payWithMercadoPago e by rid st) rid
        = Some (r\<lparr>r_status := CONFIRMED, r_updatedAt := now e\<rparr>) \<and>
      find_payment (payWithMercadoPago e by rid st) rid
        = Some (p\<lparr>p_method := Some MercadoPago, p_status := APPROVED, p_updatedAt := now e,
                  p_meta := \<lparr>m_mp = Some \<lparr>mp_status = ''approved'',
                                           mp_operationId = uid e ''mp'' 0, mp_at = now e\<rparr>,
                              m_cash = None, m_refund = None\<rparr>\<rparr>)) \<and>
   (find_reservation st rid = None \<or> find_payment st rid = None \<longrightarrow>
      st_reservations (payWithMercadoPago e by rid st) = st_reservations st \<and>
      st_payments (payWithMercadoPago e by rid st) = st_payments st)"
  unfolding find_reservation_def find_payment_def payWithMercadoPago_def Let_def
  by (auto simp: find_update_first split: option.splits)

text \<open>Paying the cancelled reservation of Ana confirms it.\<close>

theorem payWithMercadoPago_any_status_witness:
  "map_option r_status (find_reservation cancelled1 ''res_1'') = Some CANCELLED \<and>
   map_option r_status
     (find_reservation (payWithMercadoPago env1 ''usr_2'' ''res_1'' cancelled1) ''res_1'')
     = Some CONFIRMED \<and>
   map_option p_status
     (find_payment (payWithMercadoPago env1 ''usr_2'' ''res_1'' cancelled1) ''res_1'')
     = Some APPROVED"
proof -
  have a: "map_option r_status (find_reservation cancelled1 ''res_1'') = Some CANCELLED"
    by code_simp
  then obtain r where r: "find_reservation cancelled1 ''res_1'' = Some r"
    by auto
  have "find_payment cancelled1 ''res_1'' \<noteq> None"
    by code_simp
  then obtain p where p: "find_payment cancelled1 ''res_1'' = Some p"
    by blast
  from payWithMercadoPago_any_status [of cancelled1 "''res_1''" r p env1 "''usr_2''"] r p
  have "find_reservation (payWithMercadoPago env1 ''usr_2'' ''res_1'' cancelled1) ''res_1''
          = Some (r\<lparr>r_status := CONFIRMED, r_updatedAt := now env1\<rparr>)"
    and "find_payment (payWithMercadoPago env1 ''usr_2'' ''res_1'' cancelled1) ''res_1''
          = Some (p\<lparr>p_method := Some MercadoPago, p_status := APPROVED,
                    p_updatedAt := now env1,
                    p_meta := \<lparr>m_mp = Some \<lparr>mp_status = ''approved'',
                                             mp_operationId = uid env1 ''mp'' 0,
                                             mp_at = now env1\<rparr>,
                                m_cash = None, m_refund = None\<rparr>\<rparr>)"
    by blast+
  with a show ?thesis by simp
qed

text \<open>
  The claim as stated fails: on a cancelled reservation the call changes the reservation
  and marks its payment approved.
\<close>

theorem payWithMercadoPago_counterexample:
  "shown_status cancelled1 ''res_1'' = Some CANCELLED \<and>
   st_reservations (payWithMercadoPago env1 ''usr_2'' ''res_1'' cancelled1)
     \<noteq> st_reservations cancelled1 \<and>
   st_payments (payWithMercadoPago env1 ''usr_2'' ''res_1'' cancelled1)
     \<noteq> st_payments cancelled1 \<and>
   shown_status (payWithMercadoPago env1 ''usr_2'' ''res_1'' cancelled1) ''res_1''
     = Some CONFIRMED"
  by code_simp

section \<open>No-show and refund\<close>

text \<open>
  C4 (as amended). \<^verbatim>\<open>markNoShowAndRefund50\<close> checks no status and never fails.
  Whatever the current status of the reservation, when the reservation and its payment
  exist the reservation becomes NoShow and the payment RefundedPartial, with a recorded
  refund of 50 percent whose amount is exactly round(0.5 * payment.amount); when either
  is missing, the reservations and the payments stay as they were.
\<close>

theorem markNoShowAndRefund50_any_status:
  "(find_reservation st rid = Some r \<longrightarrow> find_payment st rid = Some p \<longrightarrow>
      find_reservation (markNoShowAndRefund50 e by rid st) rid
        = Some (r\<lparr>r_status := NO_SHOW, r_updatedAt := now e\<rparr>) \<and>
      find_payment (markNoShowAndRefund50 e by rid st) rid
        = Some (p\<lparr>p_status := REFUNDED_PARTIAL, p_updatedAt := now e,
                  p_meta := (p_meta p)\<lparr>m_refund :=
                     Some \<lparr>rf_percent = 50,
                           rf_amount = round (real_of_int (p_amount p) * 0.5),
                           rf_by = by, rf_at = now e\<rparr>\<rparr>\<rparr>)) \<and>
   (find_reservation st rid = None \<or> find_payment st rid = None \<longrightarrow>
      st_reservations (markNoShowAndRefund50 e by rid st) = st_reservations st \<and>
      st_payments (markNoShowAndRefund50 e by rid st) = st_payments st)"
  unfolding find_reservation_def find_payment_def markNoShowAndRefund50_def Let_def
    round_half_eq
  by (auto simp: find_update_first split: option.splits)

text \<open>
  Marking the unpaid reservation of Ana, priced 8000, as a no-show records a refund of
  4000.
\<close>

theorem markNoShowAndRefund50_any_status_witness:
  "map_option r_status (find_reservation created1 ''res_1'') = Some PENDING_PAYMENT \<and>
   map_option r_status
     (find_reservation (markNoShowAndRefund50 env1 ''usr_1'' ''res_1'' created1) ''res_1'')
     = Some NO_SHOW \<and>
   map_option (\<lambda>p. map_option rf_amount (m_refund (p_meta p)))
     (find_payment (markNoShowAndRefund50 env1 ''usr_1'' ''res_1'' created1) ''res_1'')
     = Some (Some 4000)"
proof -
  have a: "map_option r_status (find_reservation created1 ''res_1'') = Some PENDING_PAYMENT"
    by code_simp
  then obtain r where r: "find_reservation created1 ''res_1'' = Some r"
    by auto
  have b: "map_option p_amount (find_payment created1 ''res_1'') = Some 8000"
    by code_simp
  then obtain p where p: "find_payment created1 ''res_1'' = Some p" and amt: "p_amount p = 8000"
    by auto
  from markNoShowAndRefund50_any_status [of created1 "''res_1''" r p env1 "''usr_1''"] r p
  have "find_reservation (markNoShowAndRefund50 env1 ''usr_1'' ''res_1'' created1) ''res_1''
          = Some (r\<lparr>r_status := NO_SHOW, r_updatedAt := now env1\<rparr>)"
    and "find_payment (markNoShowAndRefund50 env1 ''usr_1'' ''res_1'' created1) ''res_1''
          = Some (p\<lparr>p_status := REFUNDED_PARTIAL, p_updatedAt := now env1,
                    p_meta := (p_meta p)\<lparr>m_refund :=
                       Some \<lparr>rf_percent = 50,
                             rf_amount = round (real_of_int (p_amount p) * 0.5),
                             rf_by = ''usr_1'', rf_at = now env1\<rparr>\<rparr>\<rparr>)"
    by blast+
  with a amt show ?thesis by simp
qed

text \<open>
  The claim as stated fails: the call succeeds on a reservation that is pending payment,
  not confirmed.
\<close>

theorem markNoShowAndRefund50_counterexample:
  "shown_status created1 ''res_1'' = Some PENDING_PAYMENT \<and>
   shown_status (markNoShowAndRefund50 env1 ''usr_1'' ''res_1'' created1) ''res_1''
     = Some NO_SHOW \<and>
   map_option p_status
     (find_payment (markNoShowAndRefund50 env1 ''usr_1'' ''res_1'' created1) ''res_1'')
     = Some REFUNDED_PARTIAL"
  by code_simp

section \<open>The validation pipeline of createReservation\<close>

lemma court_check_iff:
  "(case find (\<lambda>x. c_id x = courtId) courts of None \<Rightarrow> True | Some c \<Rightarrow> \<not> c_isActive c)
     \<longleftrightarrow> (\<not> (\<exists>c \<in> set courts. c_id c = courtId) \<or>
          (case find (\<lambda>x. c_id x = courtId) courts of None \<Rightarrow> False
           | Some c \<Rightarrow> \<not> c_isActive c))"
proof (cases "find (\<lambda>x. c_id x = courtId) courts")
  case None
  then have "\<not> (\<exists>c \<in> set courts. c_id c = courtId)"
    by (simp add: find_None_set)
  with None show ?thesis by simp
next
  case (Some c)
  then have "c \<in> set courts" and "c_id c = courtId"
    by (auto dest: find_Some_set find_Some_P)
  with Some show ?thesis by auto
qed

lemma date_lt_past: "date_lt target (Some d) \<longleftrightarrow> (case target of None \<Rightarrow> False | Some t \<Rightarrow> t < d)"
  by (simp add: date_lt_def split: option.splits)

lemma date_lt_far:
  "date_lt (Some (d + 7)) target \<longleftrightarrow> (case target of None \<Rightarrow> False | Some t \<Rightarrow> 7 < t - d)"
  by (auto simp: date_lt_def split: option.splits)

text \<open>
  C5. The error \<^verbatim>\<open>createReservation\<close> throws is the error of the first failing check
  in the order of the specification: unresolved user, email not validated, phone not
  validated, date before today, date more than 7 days ahead, court missing or inactive,
  slot blocked, slot taken by a reservation that is not cancelled, user already holding
  a reservation that is not cancelled in that slot; and it throws nothing exactly when
  no check fails.
\<close>

theorem createReservation_first_failing_check:
  "error_of (createReservation e by dateISO time courtId forUserId st)
     = first_failure (spec_checks e by dateISO time courtId forUserId st)"
proof (cases "target_user st by forUserId")
  case None
  then show ?thesis
    by (simp add: createReservation_def createReservation_on_def target_user_def spec_checks_def first_failure_def
        error_of_def)
next
  case (Some u)
  then have u: "find (\<lambda>x. u_id x = or_by forUserId by) (st_users st) = Some u"
    by (simp add: target_user_def)
  then have uid: "u_id u = or_by forUserId by"
    by (auto dest: find_Some_P)
  define A2 where "A2 \<longleftrightarrow> requireEmailValidation (st_config st) \<and> \<not> u_isEmailValidated u"
  define A3 where "A3 \<longleftrightarrow> requirePhoneValidation (st_config st) \<and> \<not> u_isPhoneValidated u"
  define A4 where "A4 \<longleftrightarrow> date_lt (dayOf e dateISO) (Some (today e))"
  define A5 where "A5 \<longleftrightarrow> date_lt (Some (today e + 7)) (dayOf e dateISO)"
  define A6 where "A6 \<longleftrightarrow> (case find (\<lambda>x. c_id x = courtId) (st_courts st) of
                          None \<Rightarrow> True | Some c \<Rightarrow> \<not> c_isActive c)"
  define A7 where "A7 \<longleftrightarrow> list_ex (\<lambda>b. b_courtId b = courtId \<and> b_dateISO b = dateISO \<and>
                                   b_time b = time) (st_blocks st)"
  define A8 where "A8 \<longleftrightarrow> list_ex (\<lambda>r. r_courtId r = courtId \<and> r_dateISO r = dateISO \<and>
                                   r_time r = time \<and> r_status r \<noteq> CANCELLED)
                            (st_reservations st)"
  define A9 where "A9 \<longleftrightarrow> list_ex (\<lambda>r. r_userId r = u_id u \<and> r_dateISO r = dateISO \<and>
                                   r_time r = time \<and> r_status r \<noteq> CANCELLED)
                            (st_reservations st)"
  have code: "error_of (createReservation e by dateISO time courtId forUserId st) =
      (if A2 then Some AccountNotValidatedEmail
       else if A3 then Some AccountNotValidatedPhone
       else if A4 then Some PastDate
       else if A5 then Some TooFarAhead
       else if A6 then Some ResourceUnavailable
       else if A7 then Some SlotBlocked
       else if A8 then Some SlotTaken
       else if A9 then Some UserDoubleBooked
       else None)"
    unfolding createReservation_def createReservation_on_def u Let_def error_of_def
      A2_def A3_def A4_def A5_def A6_def A7_def A8_def A9_def
    by simp
  have b7: "A7 \<longleftrightarrow> (\<exists>b \<in> set (st_blocks st).
                      b_courtId b = courtId \<and> b_dateISO b = dateISO \<and> b_time b = time)"
    by (simp add: A7_def list_ex_iff)
  have b8: "A8 \<longleftrightarrow> (\<exists>r \<in> set (st_reservations st). r_status r \<noteq> CANCELLED \<and>
                      r_courtId r = courtId \<and> r_dateISO r = dateISO \<and> r_time r = time)"
    by (auto simp: A8_def list_ex_iff)
  have b9: "A9 \<longleftrightarrow> (\<exists>r \<in> set (st_reservations st). r_status r \<noteq> CANCELLED \<and>
                      r_userId r = or_by forUserId by \<and> r_dateISO r = dateISO \<and>
                      r_time r = time)"
    by (auto simp: A9_def list_ex_iff uid)
  have spec: "spec_checks e by dateISO time courtId forUserId st =
      [(False, InvalidUser), (A2, AccountNotValidatedEmail), (A3, AccountNotValidatedPhone),
       (A4, PastDate), (A5, TooFarAhead), (A6, ResourceUnavailable), (A7, SlotBlocked),
       (A8, SlotTaken), (A9, UserDoubleBooked)]"
    unfolding spec_checks_def Some b7 b8 b9
    by (simp add: A2_def A3_def A4_def A5_def A6_def date_lt_past date_lt_far
        court_check_iff [of courtId "st_courts st"])
  show ?thesis
    unfolding code spec first_failure_def by simp
qed

text \<open>
  Once Ana holds court c1 at 10:00, a second request for that slot is refused as taken;
  the check of the slot comes before the check of her own double booking.
\<close>

theorem createReservation_first_failing_check_witness:
  "createReservation env2 ''usr_2'' ''2026-11-03'' ''10:00'' ''c1'' None created1 = Inl SlotTaken"
proof -
  have "first_failure (spec_checks env2 ''usr_2'' ''2026-11-03'' ''10:00'' ''c1'' None created1)
          = Some SlotTaken"
    by code_simp
  then have "error_of (createReservation env2 ''usr_2'' ''2026-11-03'' ''10:00'' ''c1'' None created1)
          = Some SlotTaken"
    using createReservation_first_failing_check
      [of env2 "''usr_2''" "''2026-11-03''" "''10:00''" "''c1''" None created1]
    by simp
  then show ?thesis
    by (simp add: error_of_def split: sum.splits)
qed

section \<open>The advance window\<close>

text \<open>
  C6. For a target user who is resolved and validated as the configuration requires, and
  a date that denotes calendar day \<open>t\<close>: a day before today fails with \<open>PastDate\<close>; a day
  8 or more days after today fails with \<open>TooFarAhead\<close>; today and each day up to the
  7th day after it pass the window check, 8 bookable days in all.
\<close>

theorem createReservation_advance_window:
  assumes "target_user st by forUserId = Some u"
    and "requireEmailValidation (st_config st) \<longrightarrow> u_isEmailValidated u"
    and "requirePhoneValidation (st_config st) \<longrightarrow> u_isPhoneValidated u"
    and "dayOf e dateISO = Some t"
  shows "(t < today e \<longrightarrow>
            createReservation e by dateISO time courtId forUserId st = Inl PastDate) \<and>
         (today e + 8 \<le> t \<longrightarrow>
            createReservation e by dateISO time courtId forUserId st = Inl TooFarAhead) \<and>
         (today e \<le> t \<and> t \<le> today e + 7 \<longrightarrow>
            createReservation e by dateISO time courtId forUserId st \<noteq> Inl PastDate \<and>
            createReservation e by dateISO time courtId forUserId st \<noteq> Inl TooFarAhead) \<and>
         card {d. today e \<le> d \<and> d \<le> today e + 7} = 8"
proof -
  have card: "card {d. today e \<le> d \<and> d \<le> today e + 7} = 8"
  proof -
    have "{d. today e \<le> d \<and> d \<le> today e + 7} = {today e .. today e + 7}"
      by auto
    then show ?thesis by simp
  qed
  have u: "find (\<lambda>x. u_id x = or_by forUserId by) (st_users st) = Some u"
    using assms(1) by (simp add: target_user_def)
  have past: "t < today e \<Longrightarrow>
      createReservation e by dateISO time courtId forUserId st = Inl PastDate"
    using assms(2-4) by (simp add: createReservation_def createReservation_on_def u Let_def date_lt_def)
  have far: "today e + 8 \<le> t \<Longrightarrow>
      createReservation e by dateISO time courtId forUserId st = Inl TooFarAhead"
    using assms(2-4) by (simp add: createReservation_def createReservation_on_def u Let_def date_lt_def)
  have inside: "today e \<le> t \<Longrightarrow> t \<le> today e + 7 \<Longrightarrow>
      createReservation e by dateISO time courtId forUserId st \<noteq> Inl PastDate \<and>
      createReservation e by dateISO time courtId forUserId st \<noteq> Inl TooFarAhead"
    using assms(2-4) by (simp add: createReservation_def createReservation_on_def u Let_def date_lt_def)
  from card past far inside show ?thesis by blast
qed

text \<open>
  For Ana on 2026-11-03: the day before is past, 2026-11-11 is too far ahead, and
  2026-11-10, the 7th day ahead, is booked.
\<close>

theorem createReservation_advance_window_witness:
  "createReservation env1 ''usr_2'' ''2026-11-02'' ''10:00'' ''c1'' None validated1 = Inl PastDate \<and>
   createReservation env1 ''usr_2'' ''2026-11-11'' ''10:00'' ''c1'' None validated1
     = Inl TooFarAhead \<and>
   createReservation env1 ''usr_2'' ''2026-11-10'' ''10:00'' ''c1'' None validated1
     \<noteq> Inl TooFarAhead \<and>
   error_of (createReservation env1 ''usr_2'' ''2026-11-10'' ''10:00'' ''c1'' None validated1)
     = None"
proof -
  have "map_option (\<lambda>u. (u_isEmailValidated u, u_isPhoneValidated u))
          (target_user validated1 ''usr_2'' None) = Some (True, True)"
    by code_simp
  then obtain u where u: "target_user validated1 ''usr_2'' None = Some u"
      and v: "u_isEmailValidated u" "u_isPhoneValidated u"
    by auto
  have d: "dayOf env1 ''2026-11-02'' = Some 20759" "dayOf env1 ''2026-11-11'' = Some 20768"
      "dayOf env1 ''2026-11-10'' = Some 20767" "today env1 = 20760"
    by (simp_all add: env1_def)
  have "createReservation env1 ''usr_2'' ''2026-11-02'' ''10:00'' ''c1'' None validated1
          = Inl PastDate"
    using createReservation_advance_window [OF u _ _ d(1), of "''10:00''" "''c1''"] v d(4)
    by simp
  moreover have "createReservation env1 ''usr_2'' ''2026-11-11'' ''10:00'' ''c1'' None validated1
          = Inl TooFarAhead"
    using createReservation_advance_window [OF u _ _ d(2), of "''10:00''" "''c1''"] v d(4)
    by simp
  moreover have "createReservation env1 ''usr_2'' ''2026-11-10'' ''10:00'' ''c1'' None validated1
          \<noteq> Inl TooFarAhead"
    using createReservation_advance_window [OF u _ _ d(3), of "''10:00''" "''c1''"] v d(4)
    by simp
  moreover have "error_of
      (createReservation env1 ''usr_2'' ''2026-11-10'' ''10:00'' ''c1'' None validated1) = None"
    by code_simp
  ultimately show ?thesis by blast
qed

section \<open>Cancelling an unknown reservation\<close>

text \<open>
  C7 (as amended). \<^verbatim>\<open>cancelReservation\<close> called with an identifier that matches no
  reservation does not fail. It changes no reservation and no payment and enqueues no
  notification, but it appends one audit entry with action \<^verbatim>\<open>Reserva\<close>: the state
  after the call is the state before it with that entry put first in the audit log.
\<close>

theorem cancelReservation_unknown_id:
  "find_reservation st rid = None \<Longrightarrow>
     cancelReservation e by rid reason st =
       st\<lparr>st_audit :=
            \<lparr>a_id = uid e ''aud'' 0, a_at = now e, a_by = by, a_action = ''Reserva'',
             a_detail = DetailCancelada rid
                (case reason of None \<Rightarrow> ''sin motivo''
                 | Some s \<Rightarrow> if s = [] then ''sin motivo'' else s)\<rparr> # st_audit st\<rparr>"
  by (simp add: find_reservation_def cancelReservation_def update_first_None
      reservation_owner_def audit_def Let_def)

text \<open>On the seed state, which has no reservation, the call only adds the audit entry.\<close>

theorem cancelReservation_unknown_id_witness:
  "find_reservation seed1 ''res_0'' = None \<and>
   cancelReservation env1 ''usr_1'' ''res_0'' None seed1 =
     seed1\<lparr>st_audit :=
            \<lparr>a_id = ''aud_1'', a_at = ''2026-11-03T12:00:00.000Z'', a_by = ''usr_1'',
             a_action = ''Reserva'', a_detail = DetailCancelada ''res_0'' ''sin motivo''\<rparr>
            # st_audit seed1\<rparr>"
proof -
  have n: "find_reservation seed1 ''res_0'' = None"
    by code_simp
  from cancelReservation_unknown_id [OF n, of env1 "''usr_1''" None] n show ?thesis
    by (simp add: uid_def env1_def)
qed

text \<open>
  The claim as stated fails: the call on an unknown identifier has a side effect, one
  more audit entry.
\<close>

theorem cancelReservation_unknown_id_counterexample:
  "find_reservation seed1 ''res_0'' = None \<and>
   length (st_audit (cancelReservation env1 ''usr_1'' ''res_0'' None seed1))
     = Suc (length (st_audit seed1)) \<and>
   a_action (hd (st_audit (cancelReservation env1 ''usr_1'' ''res_0'' None seed1))) = ''Reserva''"
  by code_simp

section \<open>What each operation does to reservations, payments and users\<close>

lemma createReservation_Inr:
  assumes "createReservation e by dateISO time courtId forUserId st = Inr (rid, st')"
  shows "\<exists>u. target_user st by forUserId = Some u \<and>
           rid = uid e ''res'' 0 \<and>
           \<not> list_ex (\<lambda>r. r_courtId r = courtId \<and> r_dateISO r = dateISO \<and>
                          r_time r = time \<and> r_status r \<noteq> CANCELLED) (st_reservations st) \<and>
           \<not> list_ex (\<lambda>r. r_userId r = u_id u \<and> r_dateISO r = dateISO \<and>
                          r_time r = time \<and> r_status r \<noteq> CANCELLED) (st_reservations st) \<and>
           st_users st' = st_users st \<and>
           st_reservations st' = st_reservations st @
             [\<lparr>r_id = rid, r_userId = u_id u, r_createdBy = by,
               r_dateISO = dateISO, r_time = time, r_courtId = courtId,
               r_status = PENDING_PAYMENT, r_price = price_for (st_config st) u,
               r_createdAt = now e, r_updatedAt = now e, r_cancelReason = None\<rparr>] \<and>
           st_payments st' = st_payments st @
             [\<lparr>p_id = uid e ''pay'' 1, p_reservationId = rid,
               p_method = None, p_status = PENDING, p_amount = price_for (st_config st) u,
               p_createdAt = now e, p_updatedAt = now e,
               p_meta = \<lparr>m_mp = None, m_cash = None, m_refund = None\<rparr>\<rparr>]"
proof (cases "find (\<lambda>x. u_id x = or_by forUserId by) (st_users st)")
  case None
  with assms show ?thesis by (simp add: createReservation_def createReservation_on_def)
next
  case (Some u)
  with assms show ?thesis
    unfolding createReservation_def createReservation_on_def target_user_def price_for_def Let_def
    by (auto split: if_splits)
qed

lemma payWithMercadoPago_reservations:
  "st_reservations (payWithMercadoPago e by rid st) =
     (if find_reservation st rid \<noteq> None \<and> find_payment st rid \<noteq> None
      then update_first (\<lambda>x. r_id x = rid)
             (\<lambda>r. r\<lparr>r_status := CONFIRMED, r_updatedAt := now e\<rparr>) (st_reservations st)
      else st_reservations st)"
  by (auto simp: payWithMercadoPago_def find_reservation_def find_payment_def Let_def
      split: option.splits)

lemma payWithMercadoPago_payments:
  "\<exists>f. (\<forall>p. p_id (f p) = p_id p \<and> p_reservationId (f p) = p_reservationId p \<and>
            p_amount (f p) = p_amount p) \<and>
       st_payments (payWithMercadoPago e by rid st) =
         (if find_reservation st rid \<noteq> None \<and> find_payment st rid \<noteq> None
          then update_first (\<lambda>x. p_reservationId x = rid) f (st_payments st)
          else st_payments st)"
  by (rule exI [of _ "\<lambda>p. p\<lparr>p_method := Some MercadoPago, p_status := APPROVED,
        p_updatedAt := now e,
        p_meta := \<lparr>m_mp = Some \<lparr>mp_status = ''approved'', mp_operationId = uid e ''mp'' 0,
                                 mp_at = now e\<rparr>, m_cash = None, m_refund = None\<rparr>\<rparr>"])
    (auto simp: payWithMercadoPago_def find_reservation_def find_payment_def Let_def
      split: option.splits)

lemma registerCashPayment_on_reservations:
  "st_reservations (registerCashPayment_on snap k e by rid st) =
     (if find_reservation st rid \<noteq> None \<and> find_payment st rid \<noteq> None
      then update_first (\<lambda>x. r_id x = rid)
             (\<lambda>r. r\<lparr>r_status := CONFIRMED, r_updatedAt := now e\<rparr>) (st_reservations st)
      else st_reservations st)"
  by (auto simp: registerCashPayment_on_def find_reservation_def find_payment_def Let_def
      split: option.splits)

lemma registerCashPayment_on_payments:
  "\<exists>f. (\<forall>p. p_id (f p) = p_id p \<and> p_reservationId (f p) = p_reservationId p \<and>
            p_amount (f p) = p_amount p) \<and>
       st_payments (registerCashPayment_on snap k e by rid st) =
         (if find_reservation st rid \<noteq> None \<and> find_payment st rid \<noteq> None
          then update_first (\<lambda>x. p_reservationId x = rid) f (st_payments st)
          else st_payments st)"
  by (rule exI [of _ "\<lambda>p. p\<lparr>p_method := Some Efectivo, p_status := APPROVED,
        p_updatedAt := now e,
        p_meta := \<lparr>m_mp = None, m_cash = Some \<lparr>cash_by = by, cash_at = now e\<rparr>,
                    m_refund = None\<rparr>\<rparr>"])
    (auto simp: registerCashPayment_on_def find_reservation_def find_payment_def Let_def
      split: option.splits)

lemma markNoShowAndRefund50_reservations:
  "st_reservations (markNoShowAndRefund50 e by rid st) =
     (if find_reservation st rid \<noteq> None \<and> find_payment st rid \<noteq> None
      then update_first (\<lambda>x. r_id x = rid)
             (\<lambda>r. r\<lparr>r_status := NO_SHOW, r_updatedAt := now e\<rparr>) (st_reservations st)
      else st_reservations st)"
  by (auto simp: markNoShowAndRefund50_def find_reservation_def find_payment_def Let_def
      split: option.splits)

lemma markNoShowAndRefund50_payments:
  "\<exists>f. (\<forall>p. p_id (f p) = p_id p \<and> p_reservationId (f p) = p_reservationId p \<and>
            p_amount (f p) = p_amount p) \<and>
       st_payments (markNoShowAndRefund50 e by rid st) =
         (if find_reservation st rid \<noteq> None \<and> find_payment st rid \<noteq> None
          then update_first (\<lambda>x. p_reservationId x = rid) f (st_payments st)
          else st_payments st)"
  by (rule exI [of _ "\<lambda>p. p\<lparr>p_status := REFUNDED_PARTIAL, p_updatedAt := now e,
        p_meta := (p_meta p)\<lparr>m_refund :=
          Some \<lparr>rf_percent = 50, rf_amount = round_half (p_amount p),
                rf_by = by, rf_at = now e\<rparr>\<rparr>\<rparr>"])
    (auto simp: markNoShowAndRefund50_def find_reservation_def find_payment_def Let_def
      split: option.splits)

lemma cancelReservation_reservations:
  "st_reservations (cancelReservation e by rid reason st) =
     update_first (\<lambda>x. r_id x = rid)
       (\<lambda>r. r\<lparr>r_status := CANCELLED, r_updatedAt := now e,
               r_cancelReason := Some (case reason of None \<Rightarrow> [] | Some s \<Rightarrow> s)\<rparr>)
       (st_reservations st)"
  by (auto simp: cancelReservation_def Let_def split: option.splits)

lemma cancelReservation_payments:
  "st_payments (cancelReservation e by rid reason st) = st_payments st"
  by (auto simp: cancelReservation_def Let_def split: option.splits)

lemma setConfig_frame:
  "st_reservations (setConfig e by patch st) = st_reservations st \<and>
   st_payments (setConfig e by patch st) = st_payments st \<and>
   st_users (setConfig e by patch st) = st_users st \<and>
   st_courts (setConfig e by patch st) = st_courts st \<and>
   st_blocks (setConfig e by patch st) = st_blocks st \<and>
   st_notifications (setConfig e by patch st) = st_notifications st \<and>
   st_sessions (setConfig e by patch st) = st_sessions st"
  by (simp add: setConfig_def audit_def)

lemma other_ops_reservations:
  "st_reservations (validateAccount e by emailOk phoneOk st) = st_reservations st"
  "st_reservations (setCourtActive e by courtId isActive st) = st_reservations st"
  "st_reservations (snd (addBlock e by courtId dateISO time reason st)) = st_reservations st"
  "st_reservations (removeBlock e by blockId st) = st_reservations st"
  "register e snap email phone dni password st = Inr (newId, st') \<Longrightarrow>
     st_reservations st' = st_reservations st"
  by (auto simp: validateAccount_def setCourtActive_def addBlock_def removeBlock_def
      register_def Let_def split: option.splits if_splits)

lemma other_ops_payments:
  "st_payments (validateAccount e by emailOk phoneOk st) = st_payments st"
  "st_payments (setCourtActive e by courtId isActive st) = st_payments st"
  "st_payments (snd (addBlock e by courtId dateISO time reason st)) = st_payments st"
  "st_payments (removeBlock e by blockId st) = st_payments st"
  "register e snap email phone dni password st = Inr (newId, st') \<Longrightarrow>
     st_payments st' = st_payments st"
  by (auto simp: validateAccount_def setCourtActive_def addBlock_def removeBlock_def
      register_def Let_def split: option.splits if_splits)

lemma adminCreateManualReservation_Inr:
  assumes "adminCreateManualReservation e by userId dateISO time courtId markPaidCash st
             = Inr (rid, st')"
  shows "\<exists>st1. createReservation e by dateISO time courtId userId st = Inr (rid, st1) \<and>
           st_users st' = st_users st1 \<and>
           st_reservations st' =
             st_reservations (if markPaidCash then registerCashPayment_on st 5 e by rid st1
                              else st1) \<and>
           st_payments st' =
             st_payments (if markPaidCash then registerCashPayment_on st 5 e by rid st1
                          else st1)"
  using assms
  by (auto simp: adminCreateManualReservation_def Let_def registerCashPayment_on_def
      split: sum.splits option.splits)

section \<open>The price snapshot\<close>

lemma api_step_reservation_prices:
  "\<exists>zs. map (\<lambda>r. (r_id r, r_price r)) (st_reservations (api_step e a st))
         = map (\<lambda>r. (r_id r, r_price r)) (st_reservations st) @ zs"
proof (cases a)
  case (Register email phone dni password)
  then show ?thesis
    by (auto simp: other_ops_reservations split: sum.splits)
next
  case (CreateReservation actor dateISO time courtId forUserId)
  then show ?thesis
    by (auto split: sum.splits dest!: createReservation_Inr)
next
  case (AdminCreateManualReservation actor userId dateISO time courtId markPaidCash)
  then show ?thesis
    by (auto simp: registerCashPayment_on_reservations map_update_first
        split: sum.splits dest!: adminCreateManualReservation_Inr createReservation_Inr)
qed (simp_all add: other_ops_reservations payWithMercadoPago_reservations
      registerCashPayment_def registerCashPayment_on_reservations
      markNoShowAndRefund50_reservations cancelReservation_reservations setConfig_frame
      map_update_first)

lemma map_update_first_ex:
  assumes "\<forall>x. g (f x) = g x"
  shows "map g (update_first P f xs) = map g xs"
  using assms by (simp add: map_update_first)

lemma api_step_payment_amounts:
  "\<exists>zs. map (\<lambda>p. (p_id p, p_reservationId p, p_amount p)) (st_payments (api_step e a st))
         = map (\<lambda>p. (p_id p, p_reservationId p, p_amount p)) (st_payments st) @ zs"
proof (cases a)
  case (Register email phone dni password)
  then show ?thesis
    by (auto simp: other_ops_payments split: sum.splits)
next
  case (CreateReservation actor dateISO time courtId forUserId)
  then show ?thesis
    by (auto split: sum.splits dest!: createReservation_Inr)
next
  case (PayWithMercadoPago actor rid)
  obtain f where "\<forall>p. p_id (f p) = p_id p \<and> p_reservationId (f p) = p_reservationId p \<and>
            p_amount (f p) = p_amount p"
    and "st_payments (payWithMercadoPago e actor rid st) =
         (if find_reservation st rid \<noteq> None \<and> find_payment st rid \<noteq> None
          then update_first (\<lambda>x. p_reservationId x = rid) f (st_payments st)
          else st_payments st)"
    using payWithMercadoPago_payments by blast
  with PayWithMercadoPago show ?thesis
    by (simp add: map_update_first_ex)
next
  case (RegisterCashPayment actor rid)
  obtain f where "\<forall>p. p_id (f p) = p_id p \<and> p_reservationId (f p) = p_reservationId p \<and>
            p_amount (f p) = p_amount p"
    and "st_payments (registerCashPayment_on st 0 e actor rid st) =
         (if find_reservation st rid \<noteq> None \<and> find_payment st rid \<noteq> None
          then update_first (\<lambda>x. p_reservationId x = rid) f (st_payments st)
          else st_payments st)"
    using registerCashPayment_on_payments by blast
  with RegisterCashPayment show ?thesis
    by (simp add: map_update_first_ex registerCashPayment_def)
next
  case (MarkNoShowAndRefund50 actor rid)
  obtain f where "\<forall>p. p_id (f p) = p_id p \<and> p_reservationId (f p) = p_reservationId p \<and>
            p_amount (f p) = p_amount p"
    and "st_payments (markNoShowAndRefund50 e actor rid st) =
         (if find_reservation st rid \<noteq> None \<and> find_payment st rid \<noteq> None
          then update_first (\<lambda>x. p_reservationId x = rid) f (st_payments st)
          else st_payments st)"
    using markNoShowAndRefund50_payments by blast
  with MarkNoShowAndRefund50 show ?thesis
    by (simp add: map_update_first_ex)
next
  case (AdminCreateManualReservation actor userId dateISO time courtId markPaidCash)
  show ?thesis
  proof (cases "adminCreateManualReservation e actor userId dateISO time courtId markPaidCash st")
    case (Inl err)
    with AdminCreateManualReservation show ?thesis by simp
  next
    case (Inr res)
    then obtain rid st' where res: "res = (rid, st')"
      by (cases res)
    with Inr obtain st1
      where c: "createReservation e actor dateISO time courtId userId st = Inr (rid, st1)"
        and p: "st_payments st' =
                  st_payments (if markPaidCash then registerCashPayment_on st 5 e actor rid st1
                               else st1)"
      using adminCreateManualReservation_Inr by blast
    obtain f where f: "\<forall>p. p_id (f p) = p_id p \<and> p_reservationId (f p) = p_reservationId p \<and>
            p_amount (f p) = p_amount p"
      and "st_payments (registerCashPayment_on st 5 e actor rid st1) =
         (if find_reservation st1 rid \<noteq> None \<and> find_payment st1 rid \<noteq> None
          then update_first (\<lambda>x. p_reservationId x = rid) f (st_payments st1)
          else st_payments st1)"
      using registerCashPayment_on_payments by blast
    then have "map (\<lambda>p. (p_id p, p_reservationId p, p_amount p)) (st_payments st')
        = map (\<lambda>p. (p_id p, p_reservationId p, p_amount p)) (st_payments st1)"
      using p by (simp add: map_update_first_ex)
    moreover from c have "\<exists>zs. map (\<lambda>p. (p_id p, p_reservationId p, p_amount p)) (st_payments st1)
        = map (\<lambda>p. (p_id p, p_reservationId p, p_amount p)) (st_payments st) @ zs"
      by (auto dest!: createReservation_Inr)
    ultimately show ?thesis
      using AdminCreateManualReservation Inr res by simp
  qed
qed (simp_all add: other_ops_payments cancelReservation_payments setConfig_frame)

lemma api_run_reservation_prices:
  "\<exists>zs. map (\<lambda>r. (r_id r, r_price r)) (st_reservations (api_run calls st))
         = map (\<lambda>r. (r_id r, r_price r)) (st_reservations st) @ zs"
proof (induction calls arbitrary: st)
  case Nil
  then show ?case by simp
next
  case (Cons c calls)
  obtain e a where c: "c = (e, a)"
    by (cases c)
  from Cons.IH [of "api_step e a st"] api_step_reservation_prices [of e a st] c
  show ?case by auto
qed

lemma api_run_payment_amounts:
  "\<exists>zs. map (\<lambda>p. (p_id p, p_reservationId p, p_amount p)) (st_payments (api_run calls st))
         = map (\<lambda>p. (p_id p, p_reservationId p, p_amount p)) (st_payments st) @ zs"
proof (induction calls arbitrary: st)
  case Nil
  then show ?case by simp
next
  case (Cons c calls)
  obtain e a where c: "c = (e, a)"
    by (cases c)
  from Cons.IH [of "api_step e a st"] api_step_payment_amounts [of e a st] c
  show ?case by auto
qed

text \<open>
  C8. A successful \<^verbatim>\<open>createReservation\<close> appends one reservation whose price is the
  members' price of the configuration of that moment when the target user is a member and
  the non-members' price otherwise, and one payment of that amount. After any run of API
  calls the reservations that existed before are still the first entries of the list,
  each with the identifier and the price it had, and so are the payments with their
  amounts. In particular \<^verbatim>\<open>setConfig\<close> leaves the reservations and the payments as
  they are: it changes the configuration and, as every operation, the audit log.
\<close>

theorem reservation_price_immutable:
  "(createReservation e by dateISO time courtId forUserId st = Inr (rid, st') \<longrightarrow>
      (\<exists>u. target_user st by forUserId = Some u \<and>
           butlast (st_reservations st') = st_reservations st \<and>
           map r_price (st_reservations st') =
             map r_price (st_reservations st) @ [price_for (st_config st) u] \<and>
           map p_amount (st_payments st') =
             map p_amount (st_payments st) @ [price_for (st_config st) u])) \<and>
   take (length (st_reservations st))
        (map (\<lambda>r. (r_id r, r_price r)) (st_reservations (api_run calls st)))
     = map (\<lambda>r. (r_id r, r_price r)) (st_reservations st) \<and>
   take (length (st_payments st))
        (map (\<lambda>p. (p_id p, p_reservationId p, p_amount p)) (st_payments (api_run calls st)))
     = map (\<lambda>p. (p_id p, p_reservationId p, p_amount p)) (st_payments st) \<and>
   st_reservations (setConfig e by patch st) = st_reservations st \<and>
   st_payments (setConfig e by patch st) = st_payments st \<and>
   st_users (setConfig e by patch st) = st_users st \<and>
   st_courts (setConfig e by patch st) = st_courts st \<and>
   st_blocks (setConfig e by patch st) = st_blocks st \<and>
   st_notifications (setConfig e by patch st) = st_notifications st"
proof -
  have create: "createReservation e by dateISO time courtId forUserId st = Inr (rid, st') \<longrightarrow>
      (\<exists>u. target_user st by forUserId = Some u \<and>
           butlast (st_reservations st') = st_reservations st \<and>
           map r_price (st_reservations st') =
             map r_price (st_reservations st) @ [price_for (st_config st) u] \<and>
           map p_amount (st_payments st') =
             map p_amount (st_payments st) @ [price_for (st_config st) u])"
    by (auto dest!: createReservation_Inr)
  obtain zs where "map (\<lambda>r. (r_id r, r_price r)) (st_reservations (api_run calls st))
         = map (\<lambda>r. (r_id r, r_price r)) (st_reservations st) @ zs"
    using api_run_reservation_prices by blast
  then have rs: "take (length (st_reservations st))
        (map (\<lambda>r. (r_id r, r_price r)) (st_reservations (api_run calls st)))
     = map (\<lambda>r. (r_id r, r_price r)) (st_reservations st)"
    by simp
  obtain ws where "map (\<lambda>p. (p_id p, p_reservationId p, p_amount p))
           (st_payments (api_run calls st))
         = map (\<lambda>p. (p_id p, p_reservationId p, p_amount p)) (st_payments st) @ ws"
    using api_run_payment_amounts by blast
  then have ps: "take (length (st_payments st))
        (map (\<lambda>p. (p_id p, p_reservationId p, p_amount p)) (st_payments (api_run calls st)))
     = map (\<lambda>p. (p_id p, p_reservationId p, p_amount p)) (st_payments st)"
    by simp
  from create rs ps setConfig_frame [of e "by" patch st] show ?thesis
    by blast
qed

text \<open>
  Ana's first reservation is priced 8000, the non-members' price of the seed
  configuration; it keeps that price when the price is raised to 9000, which the next
  reservation gets.
\<close>

theorem reservation_price_immutable_witness:
  "createReservation env1 ''usr_2'' ''2026-11-03'' ''10:00'' ''c1'' None validated1
     = Inr (''res_1'', created1) \<and>
   map r_price (st_reservations created1) = [8000] \<and>
   take 1 (map (\<lambda>r. (r_id r, r_price r)) (st_reservations (api_run price_change_run created1)))
     = [(''res_1'', 8000)] \<and>
   map r_price (st_reservations (api_run price_change_run created1)) = [8000, 9000]"
proof -
  have c: "createReservation env1 ''usr_2'' ''2026-11-03'' ''10:00'' ''c1'' None validated1
             = Inr (''res_1'', created1)"
    by code_simp
  have v: "st_reservations validated1 = []"
    by code_simp
  have "map_option (price_for (st_config validated1)) (target_user validated1 ''usr_2'' None)
          = Some 8000"
    by code_simp
  then have p: "\<And>u. target_user validated1 ''usr_2'' None = Some u
                 \<Longrightarrow> price_for (st_config validated1) u = 8000"
    by auto
  from reservation_price_immutable
      [of env1 "''usr_2''" "''2026-11-03''" "''10:00''" "''c1''" None validated1
          "''res_1''" created1 "[]" price_patch] c
  obtain u where "target_user validated1 ''usr_2'' None = Some u"
    and "map r_price (st_reservations created1) =
           map r_price (st_reservations validated1) @ [price_for (st_config validated1) u]"
    by blast
  with v p have one: "map r_price (st_reservations created1) = [8000]"
    by simp
  have l: "length (st_reservations created1) = 1"
    using one by (metis length_map length_Cons list.size(3) One_nat_def)
  have "map (\<lambda>r. (r_id r, r_price r)) (st_reservations created1) = [(''res_1'', 8000)]"
    by code_simp
  with reservation_price_immutable
      [of env1 "''usr_2''" "''2026-11-03''" "''10:00''" "''c1''" None created1
          "''res_1''" created1 price_change_run price_patch] l
  have kept: "take 1 (map (\<lambda>r. (r_id r, r_price r))
                 (st_reservations (api_run price_change_run created1))) = [(''res_1'', 8000)]"
    by simp
  have "map r_price (st_reservations (api_run price_change_run created1)) = [8000, 9000]"
    by code_simp
  with c one kept show ?thesis by blast
qed

section \<open>The duplicate check of register\<close>

lemma register_Inr:
  assumes "register e snap email phone dni password st = Inr (newId, st')"
  shows "\<exists>u. st_users st' = st_users st @ [u] \<and>
           u_email u = toLowerCase (trim email) \<and> u_dni u = trim dni \<and>
           u_phone u = trim phone \<and>
           \<not> list_ex (\<lambda>x. u_email x = toLowerCase (trim email) \<or> u_dni x = trim dni)
                (st_users snap)"
  using assms unfolding register_def Let_def
  by (auto split: if_splits)

text \<open>
  C10 (as amended). Phone numbers are not unique across users: \<^verbatim>\<open>register\<close> never
  compares the phone. It fails with \<open>DuplicateUser\<close> exactly when the checks before it
  pass and a user of the state its checks read has the normalised email or the trimmed
  DNI of the request; on success it appends a user with that email, DNI and the trimmed
  phone to the state current at the commit. A registration that commits on the state its
  checks read keeps the emails pairwise distinct and the DNIs pairwise distinct.
\<close>

theorem register_duplicate_check:
  "(register e snap email phone dni password st = Inl DuplicateUser \<longleftrightarrow>
      6 \<le> length (trim dni) \<and> CHR ''@'' \<in> set (toLowerCase (trim email)) \<and>
      trim phone \<noteq> [] \<and> passRegex_test password \<and>
      (\<exists>u \<in> set (st_users snap).
          u_email u = toLowerCase (trim email) \<or> u_dni u = trim dni)) \<and>
   (register e snap email phone dni password st = Inr (newId, st') \<longrightarrow>
      map u_email (st_users st') = map u_email (st_users st) @ [toLowerCase (trim email)] \<and>
      map u_dni (st_users st') = map u_dni (st_users st) @ [trim dni] \<and>
      map u_phone (st_users st') = map u_phone (st_users st) @ [trim phone]) \<and>
   (register e st email phone dni password st = Inr (newId, st') \<longrightarrow>
      distinct (map u_email (st_users st)) \<longrightarrow> distinct (map u_dni (st_users st)) \<longrightarrow>
      distinct (map u_email (st_users st')) \<and> distinct (map u_dni (st_users st')))"
proof -
  have dup: "register e snap email phone dni password st = Inl DuplicateUser \<longleftrightarrow>
      6 \<le> length (trim dni) \<and> CHR ''@'' \<in> set (toLowerCase (trim email)) \<and>
      trim phone \<noteq> [] \<and> passRegex_test password \<and>
      (\<exists>u \<in> set (st_users snap).
          u_email u = toLowerCase (trim email) \<or> u_dni u = trim dni)"
    by (auto simp: register_def Let_def list_ex_iff)
  have app: "register e snap email phone dni password st = Inr (newId, st') \<longrightarrow>
      map u_email (st_users st') = map u_email (st_users st) @ [toLowerCase (trim email)] \<and>
      map u_dni (st_users st') = map u_dni (st_users st) @ [trim dni] \<and>
      map u_phone (st_users st') = map u_phone (st_users st) @ [trim phone]"
    by (auto dest!: register_Inr)
  have keep: "register e st email phone dni password st = Inr (newId, st') \<longrightarrow>
      distinct (map u_email (st_users st)) \<longrightarrow> distinct (map u_dni (st_users st)) \<longrightarrow>
      distinct (map u_email (st_users st')) \<and> distinct (map u_dni (st_users st'))"
  proof (intro impI)
    assume "register e st email phone dni password st = Inr (newId, st')"
      and d: "distinct (map u_email (st_users st))" "distinct (map u_dni (st_users st))"
    then obtain u where u: "st_users st' = st_users st @ [u]"
      and "u_email u = toLowerCase (trim email)" and "u_dni u = trim dni"
      and "\<not> list_ex (\<lambda>x. u_email x = toLowerCase (trim email) \<or> u_dni x = trim dni)
                (st_users st)"
      using register_Inr by blast
    then have "u_email u \<notin> set (map u_email (st_users st))"
      and "u_dni u \<notin> set (map u_dni (st_users st))"
      by (auto simp: list_ex_iff)
    with d u show "distinct (map u_email (st_users st')) \<and> distinct (map u_dni (st_users st'))"
      by simp
  qed
  from dup app keep show ?thesis by blast
qed

text \<open>
  Ana's registration on the seed state appends her with the admin's phone number and
  keeps emails and DNIs distinct; a later registration with her email in other letter
  case is refused as a duplicate.
\<close>

theorem register_duplicate_check_witness:
  "register env2 seed1 ''Ana@Mail.com'' ''11-0000-0000'' ''30111223'' (ascii ''Abc123!'') seed1
     = Inr (''usr_2'', registered1) \<and>
   map u_phone (st_users registered1) = [''11-0000-0000'', ''11-0000-0000''] \<and>
   distinct (map u_email (st_users registered1)) \<and>
   distinct (map u_dni (st_users registered1)) \<and>
   register env1 registered1 '' ANA@mail.com'' ''221-555'' ''30999888'' (ascii ''Abc123!'')
     registered1 = Inl DuplicateUser"
proof -
  have r: "register env2 seed1 ''Ana@Mail.com'' ''11-0000-0000'' ''30111223''
             (ascii ''Abc123!'') seed1 = Inr (''usr_2'', registered1)"
    by code_simp
  have s: "map u_phone (st_users seed1) = [''11-0000-0000'']"
    "distinct (map u_email (st_users seed1))" "distinct (map u_dni (st_users seed1))"
    "trim ''11-0000-0000'' = ''11-0000-0000''"
    by code_simp+
  note first = register_duplicate_check
         [of env2 seed1 "''Ana@Mail.com''" "''11-0000-0000''" "''30111223''"
             "ascii ''Abc123!''" seed1 "''usr_2''" registered1]
  from first r have "map u_phone (st_users registered1)
      = map u_phone (st_users seed1) @ [trim ''11-0000-0000'']"
    by blast
  with s have a: "map u_phone (st_users registered1) = [''11-0000-0000'', ''11-0000-0000'']"
    by simp
  from first r s(2,3) have b: "distinct (map u_email (st_users registered1))"
           "distinct (map u_dni (st_users registered1))"
    by blast+
  have "6 \<le> length (trim ''30999888'')"
    and "CHR ''@'' \<in> set (toLowerCase (trim '' ANA@mail.com''))"
    and "trim ''221-555'' \<noteq> []"
    and "passRegex_test (ascii ''Abc123!'')"
    and "list_ex (\<lambda>u. u_email u = toLowerCase (trim '' ANA@mail.com'') \<or>
                       u_dni u = trim ''30999888'') (st_users registered1)"
    by code_simp+
  with register_duplicate_check
         [of env1 registered1 "'' ANA@mail.com''" "''221-555''" "''30999888''"
             "ascii ''Abc123!''" registered1 "''usr_2''" registered1]
  have "register env1 registered1 '' ANA@mail.com'' ''221-555'' ''30999888''
          (ascii ''Abc123!'') registered1 = Inl DuplicateUser"
    by (simp add: list_ex_iff)
  with r a b show ?thesis by blast
qed

text \<open>
  The claim as stated fails: Ana registers with the phone number of the seeded admin,
  and the state reached holds two users with that phone number.
\<close>

theorem phone_unique_counterexample:
  "reachable registered1 \<and>
   map u_phone (st_users registered1) = [''11-0000-0000'', ''11-0000-0000''] \<and>
   \<not> distinct (map u_phone (st_users registered1))"
proof -
  have "reachable registered1"
    unfolding registered1_def seed1_def by (intro reachable.intros)
  moreover have "map u_phone (st_users registered1) = [''11-0000-0000'', ''11-0000-0000'']"
    by code_simp
  ultimately show ?thesis by simp
qed

text \<open>
  Two registrations of Ana that overlap, the checks of the second running before the
  first commits, both succeed: emails and DNIs are then not unique either.
\<close>

lemma register_overlapping_duplicates:
  "map u_id (st_users registered_twice1) = [''usr_1'', ''usr_2'', ''usr_3''] \<and>
   map u_email (st_users registered_twice1)
     = [''admin@edlp.com'', ''ana@mail.com'', ''ana@mail.com''] \<and>
   map u_dni (st_users registered_twice1) = [''12345678'', ''30111223'', ''30111223'']"
  by code_simp

section \<open>Status transitions\<close>

lemma nth_update_first_status:
  assumes "i < length xs" and "\<And>r. r_status (f r) = s"
  shows "r_status (update_first P f xs ! i) = r_status (xs ! i) \<or>
         (find P xs = Some (xs ! i) \<and> r_status (update_first P f xs ! i) = s)"
proof (cases "find P xs")
  case None
  then show ?thesis by (simp add: update_first_None)
next
  case (Some r)
  from nth_update_first [OF Some assms(1), of f] Some assms(2) show ?thesis
    by auto
qed

lemma shown_status_update_first:
  assumes "find (\<lambda>x. r_id x = rid) rs = Some r"
    and "\<And>x. r_id (f x) = r_id x" and "\<And>x. r_status (f x) = s"
  shows "map_option r_status (find (\<lambda>x. r_id x = rid) (update_first (\<lambda>x. r_id x = rid) f rs))
           = Some s"
proof -
  have "find (\<lambda>x. r_id x = rid) (update_first (\<lambda>x. r_id x = rid) f rs) = Some (f r)"
    by (rule find_update_first [OF assms(1)]) (simp add: assms(2))
  then show ?thesis by (simp add: assms(3))
qed

text \<open>
  C2 (as amended). Neither Cancelled nor NoShow is terminal at the API, whose four
  operations read no status. Each changes the status of at most one reservation, the
  first with the given identifier, and sets it to Confirmed (online and cash payment, when
  a payment of that reservation exists), Cancelled (cancellation) or NoShow (no-show, when
  a payment exists), whatever its status was; every other reservation keeps its status.
  So a cancelled reservation stays cancelled under \<^verbatim>\<open>cancelReservation\<close>, a no-show
  stays a no-show under \<^verbatim>\<open>markNoShowAndRefund50\<close>, and a call that targets another
  reservation changes neither.
\<close>

theorem transition_status_effect:
  assumes "i < length (st_reservations st)"
  shows
    "(r_status (st_reservations (payWithMercadoPago e by rid st) ! i)
        = r_status (st_reservations st ! i) \<or>
      find_reservation st rid = Some (st_reservations st ! i) \<and>
      r_status (st_reservations (payWithMercadoPago e by rid st) ! i) = CONFIRMED) \<and>
     (r_status (st_reservations (registerCashPayment e by rid st) ! i)
        = r_status (st_reservations st ! i) \<or>
      find_reservation st rid = Some (st_reservations st ! i) \<and>
      r_status (st_reservations (registerCashPayment e by rid st) ! i) = CONFIRMED) \<and>
     (r_status (st_reservations (cancelReservation e by rid reason st) ! i)
        = r_status (st_reservations st ! i) \<or>
      find_reservation st rid = Some (st_reservations st ! i) \<and>
      r_status (st_reservations (cancelReservation e by rid reason st) ! i) = CANCELLED) \<and>
     (r_status (st_reservations (markNoShowAndRefund50 e by rid st) ! i)
        = r_status (st_reservations st ! i) \<or>
      find_reservation st rid = Some (st_reservations st ! i) \<and>
      r_status (st_reservations (markNoShowAndRefund50 e by rid st) ! i) = NO_SHOW) \<and>
     length (st_reservations (payWithMercadoPago e by rid st)) = length (st_reservations st) \<and>
     length (st_reservations (registerCashPayment e by rid st)) = length (st_reservations st) \<and>
     length (st_reservations (cancelReservation e by rid reason st))
       = length (st_reservations st) \<and>
     length (st_reservations (markNoShowAndRefund50 e by rid st))
       = length (st_reservations st) \<and>
     (find_reservation st rid \<noteq> None \<longrightarrow>
        shown_status (cancelReservation e by rid reason st) rid = Some CANCELLED) \<and>
     (find_reservation st rid \<noteq> None \<and> find_payment st rid \<noteq> None \<longrightarrow>
        shown_status (payWithMercadoPago e by rid st) rid = Some CONFIRMED \<and>
        shown_status (registerCashPayment e by rid st) rid = Some CONFIRMED \<and>
        shown_status (markNoShowAndRefund50 e by rid st) rid = Some NO_SHOW)"
proof -
  let ?P = "\<lambda>x. r_id x = rid"
  let ?conf = "\<lambda>r. r\<lparr>r_status := CONFIRMED, r_updatedAt := now e\<rparr>"
  let ?canc = "\<lambda>r. r\<lparr>r_status := CANCELLED, r_updatedAt := now e,
                       r_cancelReason := Some (case reason of None \<Rightarrow> [] | Some s \<Rightarrow> s)\<rparr>"
  let ?nosh = "\<lambda>r. r\<lparr>r_status := NO_SHOW, r_updatedAt := now e\<rparr>"
  have conf: "r_status (update_first ?P ?conf (st_reservations st) ! i)
                = r_status (st_reservations st ! i) \<or>
              find_reservation st rid = Some (st_reservations st ! i) \<and>
              r_status (update_first ?P ?conf (st_reservations st) ! i) = CONFIRMED"
    unfolding find_reservation_def by (rule nth_update_first_status [OF assms]) simp
  have canc: "r_status (update_first ?P ?canc (st_reservations st) ! i)
                = r_status (st_reservations st ! i) \<or>
              find_reservation st rid = Some (st_reservations st ! i) \<and>
              r_status (update_first ?P ?canc (st_reservations st) ! i) = CANCELLED"
    unfolding find_reservation_def by (rule nth_update_first_status [OF assms]) simp
  have nosh: "r_status (update_first ?P ?nosh (st_reservations st) ! i)
                = r_status (st_reservations st ! i) \<or>
              find_reservation st rid = Some (st_reservations st ! i) \<and>
              r_status (update_first ?P ?nosh (st_reservations st) ! i) = NO_SHOW"
    unfolding find_reservation_def by (rule nth_update_first_status [OF assms]) simp
  have 1: "r_status (st_reservations (payWithMercadoPago e by rid st) ! i)
        = r_status (st_reservations st ! i) \<or>
      find_reservation st rid = Some (st_reservations st ! i) \<and>
      r_status (st_reservations (payWithMercadoPago e by rid st) ! i) = CONFIRMED"
    using conf by (simp add: payWithMercadoPago_reservations)
  have 2: "r_status (st_reservations (registerCashPayment e by rid st) ! i)
        = r_status (st_reservations st ! i) \<or>
      find_reservation st rid = Some (st_reservations st ! i) \<and>
      r_status (st_reservations (registerCashPayment e by rid st) ! i) = CONFIRMED"
    using conf by (simp add: registerCashPayment_def registerCashPayment_on_reservations)
  have 3: "r_status (st_reservations (cancelReservation e by rid reason st) ! i)
        = r_status (st_reservations st ! i) \<or>
      find_reservation st rid = Some (st_reservations st ! i) \<and>
      r_status (st_reservations (cancelReservation e by rid reason st) ! i) = CANCELLED"
    using canc by (simp add: cancelReservation_reservations)
  have 4: "r_status (st_reservations (markNoShowAndRefund50 e by rid st) ! i)
        = r_status (st_reservations st ! i) \<or>
      find_reservation st rid = Some (st_reservations st ! i) \<and>
      r_status (st_reservations (markNoShowAndRefund50 e by rid st) ! i) = NO_SHOW"
    using nosh by (simp add: markNoShowAndRefund50_reservations)
  have 5: "length (st_reservations (payWithMercadoPago e by rid st))
             = length (st_reservations st)"
    "length (st_reservations (registerCashPayment e by rid st)) = length (st_reservations st)"
    "length (st_reservations (cancelReservation e by rid reason st))
       = length (st_reservations st)"
    "length (st_reservations (markNoShowAndRefund50 e by rid st))
       = length (st_reservations st)"
    by (simp_all add: payWithMercadoPago_reservations registerCashPayment_def
        registerCashPayment_on_reservations cancelReservation_reservations
        markNoShowAndRefund50_reservations length_update_first)
  have 6: "find_reservation st rid \<noteq> None \<longrightarrow>
        shown_status (cancelReservation e by rid reason st) rid = Some CANCELLED"
  proof
    assume "find_reservation st rid \<noteq> None"
    then obtain r where r: "find ?P (st_reservations st) = Some r"
      by (auto simp: find_reservation_def)
    have "map_option r_status (find ?P (update_first ?P ?canc (st_reservations st)))
            = Some CANCELLED"
      by (rule shown_status_update_first [OF r]) simp_all
    then show "shown_status (cancelReservation e by rid reason st) rid = Some CANCELLED"
      by (simp add: shown_status_def cancelReservation_reservations)
  qed
  have 7: "find_reservation st rid \<noteq> None \<and> find_payment st rid \<noteq> None \<longrightarrow>
        shown_status (payWithMercadoPago e by rid st) rid = Some CONFIRMED \<and>
        shown_status (registerCashPayment e by rid st) rid = Some CONFIRMED \<and>
        shown_status (markNoShowAndRefund50 e by rid st) rid = Some NO_SHOW"
  proof
    assume f: "find_reservation st rid \<noteq> None \<and> find_payment st rid \<noteq> None"
    then obtain r where r: "find ?P (st_reservations st) = Some r"
      by (auto simp: find_reservation_def)
    have "map_option r_status (find ?P (update_first ?P ?conf (st_reservations st)))
            = Some CONFIRMED"
      by (rule shown_status_update_first [OF r]) simp_all
    moreover have "map_option r_status (find ?P (update_first ?P ?nosh (st_reservations st)))
            = Some NO_SHOW"
      by (rule shown_status_update_first [OF r]) simp_all
    ultimately show "shown_status (payWithMercadoPago e by rid st) rid = Some CONFIRMED \<and>
        shown_status (registerCashPayment e by rid st) rid = Some CONFIRMED \<and>
        shown_status (markNoShowAndRefund50 e by rid st) rid = Some NO_SHOW"
      using f
      by (simp add: shown_status_def payWithMercadoPago_reservations registerCashPayment_def
          registerCashPayment_on_reservations markNoShowAndRefund50_reservations)
  qed
  from 1 2 3 4 5 6 7 show ?thesis by blast
qed

text \<open>
  Ana's cancelled reservation stays cancelled when cancelled again, her no-show stays a
  no-show when marked again, and cancelling her pending reservation cancels it.
\<close>

theorem transition_status_effect_witness:
  "0 < length (st_reservations cancelled1) \<and>
   r_status (st_reservations cancelled1 ! 0) = CANCELLED \<and>
   r_status (st_reservations (cancelReservation env1 ''usr_1'' ''res_1'' None cancelled1) ! 0)
     = CANCELLED \<and>
   0 < length (st_reservations noshow1) \<and>
   r_status (st_reservations noshow1 ! 0) = NO_SHOW \<and>
   r_status (st_reservations (markNoShowAndRefund50 env1 ''usr_1'' ''res_1'' noshow1) ! 0)
     = NO_SHOW \<and>
   find_reservation created1 ''res_1'' \<noteq> None \<and>
   shown_status (cancelReservation env1 ''usr_2'' ''res_1'' None created1) ''res_1''
     = Some CANCELLED"
proof -
  have l: "0 < length (st_reservations cancelled1)" "0 < length (st_reservations noshow1)"
    by code_simp+
  have s: "r_status (st_reservations cancelled1 ! 0) = CANCELLED"
    "r_status (st_reservations noshow1 ! 0) = NO_SHOW"
    by code_simp+
  have f: "find_reservation created1 ''res_1'' \<noteq> None"
    by code_simp
  from transition_status_effect [OF l(1), of env1 "''usr_1''" "''res_1''" None] s(1)
  have a: "r_status (st_reservations
             (cancelReservation env1 ''usr_1'' ''res_1'' None cancelled1) ! 0) = CANCELLED"
    by auto
  from transition_status_effect [OF l(2), of env1 "''usr_1''" "''res_1''" None] s(2)
  have b: "r_status (st_reservations
             (markNoShowAndRefund50 env1 ''usr_1'' ''res_1'' noshow1) ! 0) = NO_SHOW"
    by auto
  have c0: "0 < length (st_reservations created1)"
    by code_simp
  from transition_status_effect [OF c0, of env1 "''usr_2''" "''res_1''" None] f
  have c: "shown_status (cancelReservation env1 ''usr_2'' ''res_1'' None created1) ''res_1''
             = Some CANCELLED"
    by blast
  from l s f a b c show ?thesis by blast
qed

text \<open>
  The claim as stated fails: a cash payment registered on Ana's cancelled reservation
  confirms it, and cancelling her no-show reservation changes it to cancelled.
\<close>

theorem terminal_status_counterexample:
  "shown_status cancelled1 ''res_1'' = Some CANCELLED \<and>
   shown_status (registerCashPayment env1 ''usr_1'' ''res_1'' cancelled1) ''res_1''
     = Some CONFIRMED \<and>
   shown_status noshow1 ''res_1'' = Some NO_SHOW \<and>
   shown_status (cancelReservation env1 ''usr_1'' ''res_1'' None noshow1) ''res_1''
     = Some CANCELLED"
  by code_simp

section \<open>One reservation per slot and per user\<close>

lemma no_double_booking_append:
  assumes "no_double_booking rs"
    and "\<not> list_ex (\<lambda>r. r_courtId r = r_courtId new \<and> r_dateISO r = r_dateISO new \<and>
                        r_time r = r_time new \<and> r_status r \<noteq> CANCELLED) rs"
    and "\<not> list_ex (\<lambda>r. r_userId r = r_userId new \<and> r_dateISO r = r_dateISO new \<and>
                        r_time r = r_time new \<and> r_status r \<noteq> CANCELLED) rs"
  shows "no_double_booking (rs @ [new])"
  using assms unfolding no_double_booking_def list_ex_iff
  by (auto simp: active_def slot_key_def user_key_def)

text \<open>
  What the two checks of \<^verbatim>\<open>createReservation\<close> achieve: a call that commits on the
  state its checks read keeps both uniqueness rules.
\<close>

lemma createReservation_no_double_booking:
  assumes "createReservation e actor dateISO time courtId forUserId st = Inr (rid, st')"
    and "no_double_booking (st_reservations st)"
  shows "no_double_booking (st_reservations st')"
proof -
  from createReservation_Inr [OF assms(1)] obtain u
    where c: "\<not> list_ex (\<lambda>r. r_courtId r = courtId \<and> r_dateISO r = dateISO \<and>
                          r_time r = time \<and> r_status r \<noteq> CANCELLED) (st_reservations st)"
      and d: "\<not> list_ex (\<lambda>r. r_userId r = u_id u \<and> r_dateISO r = dateISO \<and>
                          r_time r = time \<and> r_status r \<noteq> CANCELLED) (st_reservations st)"
      and rs: "st_reservations st' = st_reservations st @
             [\<lparr>r_id = rid, r_userId = u_id u, r_createdBy = actor,
               r_dateISO = dateISO, r_time = time, r_courtId = courtId,
               r_status = PENDING_PAYMENT, r_price = price_for (st_config st) u,
               r_createdAt = now e, r_updatedAt = now e, r_cancelReason = None\<rparr>]"
    by blast
  show ?thesis
    unfolding rs
    by (rule no_double_booking_append [OF assms(2)]) (use c d in simp_all)
qed

text \<open>
  C1. The claim, at most one reservation that is not cancelled for every court, date and
  slot and for every user, date and slot in every state the API reaches, is what the two
  checks of \<^verbatim>\<open>createReservation\<close> are written for, and the code breaks it on two runs.
  In the first Ana books court c1 on 2026-11-03 at 10:00, cancels, books the slot again,
  and the online payment of the cancelled reservation commits: it is confirmed without
  its status being read. In the second her booking is submitted twice and the checks of
  the second call read the state from before the first commit. Both runs end with two
  reservations of that slot, both hers, that are not cancelled.
\<close>

theorem double_booking_failing_runs:
  "reachable revived1 \<and>
   map (\<lambda>r. (r_id r, r_userId r, r_courtId r, r_dateISO r, r_time r, r_status r))
     (st_reservations revived1)
     = [(''res_1'', ''usr_2'', ''c1'', ''2026-11-03'', ''10:00'', CONFIRMED),
        (''res_2'', ''usr_2'', ''c1'', ''2026-11-03'', ''10:00'', PENDING_PAYMENT)] \<and>
   length (filter (\<lambda>r. r_courtId r = ''c1'' \<and> r_dateISO r = ''2026-11-03'' \<and>
                       r_time r = ''10:00'' \<and> r_status r \<noteq> CANCELLED)
             (st_reservations revived1)) = 2 \<and>
   length (filter (\<lambda>r. r_userId r = ''usr_2'' \<and> r_dateISO r = ''2026-11-03'' \<and>
                       r_time r = ''10:00'' \<and> r_status r \<noteq> CANCELLED)
             (st_reservations revived1)) = 2 \<and>
   map (\<lambda>r. (r_id r, r_userId r, r_courtId r, r_dateISO r, r_time r, r_status r))
     (st_reservations created_twice1)
     = [(''res_1'', ''usr_2'', ''c1'', ''2026-11-03'', ''10:00'', PENDING_PAYMENT),
        (''res_2'', ''usr_2'', ''c1'', ''2026-11-03'', ''10:00'', PENDING_PAYMENT)] \<and>
   length (filter (\<lambda>r. r_courtId r = ''c1'' \<and> r_dateISO r = ''2026-11-03'' \<and>
                       r_time r = ''10:00'' \<and> r_status r \<noteq> CANCELLED)
             (st_reservations created_twice1)) = 2"
proof -
  have "reachable revived1"
    unfolding revived1_def recreated1_def cancelled1_def created1_def validated1_def
      registered1_def seed1_def
    by (intro reachable.intros)
  moreover have "map (\<lambda>r. (r_id r, r_userId r, r_courtId r, r_dateISO r, r_time r, r_status r))
     (st_reservations revived1)
     = [(''res_1'', ''usr_2'', ''c1'', ''2026-11-03'', ''10:00'', CONFIRMED),
        (''res_2'', ''usr_2'', ''c1'', ''2026-11-03'', ''10:00'', PENDING_PAYMENT)]"
    by code_simp
  moreover have "length (filter (\<lambda>r. r_courtId r = ''c1'' \<and> r_dateISO r = ''2026-11-03'' \<and>
                       r_time r = ''10:00'' \<and> r_status r \<noteq> CANCELLED)
             (st_reservations revived1)) = 2"
    by code_simp
  moreover have "length (filter (\<lambda>r. r_userId r = ''usr_2'' \<and> r_dateISO r = ''2026-11-03'' \<and>
                       r_time r = ''10:00'' \<and> r_status r \<noteq> CANCELLED)
             (st_reservations revived1)) = 2"
    by code_simp
  moreover have "map (\<lambda>r. (r_id r, r_userId r, r_courtId r, r_dateISO r, r_time r, r_status r))
     (st_reservations created_twice1)
     = [(''res_1'', ''usr_2'', ''c1'', ''2026-11-03'', ''10:00'', PENDING_PAYMENT),
        (''res_2'', ''usr_2'', ''c1'', ''2026-11-03'', ''10:00'', PENDING_PAYMENT)]"
    by code_simp
  moreover have "length (filter (\<lambda>r. r_courtId r = ''c1'' \<and> r_dateISO r = ''2026-11-03'' \<and>
                       r_time r = ''10:00'' \<and> r_status r \<noteq> CANCELLED)
             (st_reservations created_twice1)) = 2"
    by code_simp
  ultimately show ?thesis by blast
qed

end
